theory Spec2Isabelle
  imports Complex_Main "HOL-Library.Word" "HOL-Library.Sublist"
begin

section \<open>Numbers\<close>

text \<open>
  Go's \<open>uint64\<close> is a 64-bit word: \<open>+\<close>, \<open>-\<close> and \<open>*\<close> wrap around, \<open>div\<close> truncates,
  \<open>unat\<close> reads the value. Go's \<open>float64\<close> is IEEE binary64; a \<open>float64\<close> value is
  modelled by the real number it denotes. The arithmetic on these values is modelled
  at two levels.
  \<^item> In \<open>basisPrice\<close> and \<open>feeGapStats\<close>, whose claims are about the numbers computed,
    every conversion, subtraction, multiplication and division rounds its exact result
    to binary64 (\<open>binary64\<close> below), as the machine does.
  \<^item> In \<open>updateLotSize\<close> and \<open>orderPrice\<close> the arithmetic is exact
    (\<open>float64_of_uint64\<close> and the operations of the reals): there the model can differ
    from the machine in the last unit. The theorems about these two functions do not
    depend on how a product or a quotient is rounded, and the numbers in their examples
    are exact in binary64.
\<close>

type_synonym uint64 = "64 word"
type_synonym float64 = real
type_synonym bytes = "8 word list"

definition float64_of_uint64 :: "uint64 \<Rightarrow> float64" where
  "float64_of_uint64 w = real (unat w)"

text \<open>\<open>math.Round\<close>: the nearest integer, halves away from zero.\<close>

definition math_Round :: "float64 \<Rightarrow> float64" where
  "math_Round x =
     (if 0 \<le> x then of_int \<lfloor>x + 1 / 2\<rfloor> else - of_int \<lfloor>- x + 1 / 2\<rfloor>)"

text \<open>
  The conversion \<open>uint64(x)\<close> of a float truncates. Go leaves the result
  implementation-dependent when \<open>x\<close> is negative, not below \<open>2^64\<close>, infinite or not a
  number; the model wraps there, and a float division by zero (infinite or not a number
  in Go) is \<open>0\<close> in the model. No theorem below rests on these two choices: a theorem
  that computes a number through a conversion or a division keeps the operands in range
  by its hypotheses or its inputs, and the others hold whatever a conversion yields.
\<close>

definition uint64_of_float64 :: "float64 \<Rightarrow> uint64" where
  "uint64_of_float64 x = word_of_int \<lfloor>x\<rfloor>"

subsection \<open>Rounding to binary64\<close>

text \<open>
  \<open>rne\<close> rounds a real to the nearest integer, a half to the even neighbour.
\<close>

definition rne :: "real \<Rightarrow> int" where
  "rne x =
     (let n = \<lfloor>x\<rfloor>; d = x - of_int n
      in if d < 1 / 2 then n else if 1 / 2 < d then n + 1
         else if even n then n else n + 1)"

text \<open>
  The binary exponent of a positive real: \<open>e\<close> with \<open>2^e \<le> x < 2^(e+1)\<close>, found by
  halving (at most 1023 times) or doubling (at most 1022 times). It is not taken below
  \<open>-1022\<close>, the exponent of the subnormal numbers.
\<close>

fun halvings :: "nat \<Rightarrow> real \<Rightarrow> nat" where
  "halvings 0 x = 0"
| "halvings (Suc n) x = (if 2 \<le> x then Suc (halvings n (x / 2)) else 0)"

fun doublings :: "nat \<Rightarrow> real \<Rightarrow> nat" where
  "doublings 0 x = 0"
| "doublings (Suc n) x = (if x < 1 then Suc (doublings n (2 * x)) else 0)"

definition exponent :: "real \<Rightarrow> int" where
  "exponent x = (if 1 \<le> x then int (halvings 1023 x) else - int (doublings 1022 x))"

text \<open>
  \<open>binary64 x\<close> is the binary64 value nearest to \<open>x\<close>, a tie going to the even
  significand: with \<open>q\<close> the distance between neighbouring binary64 values at \<open>|x|\<close>
  (a significand of 53 bits), \<open>|x| / q\<close> is rounded to an integer. Overflow to infinity,
  from \<open>2^1024\<close> on, is not modelled.
\<close>

definition binary64 :: "real \<Rightarrow> float64" where
  "binary64 x =
     (let q = 2 powi (exponent \<bar>x\<bar> - 52)
      in sgn x * (of_int (rne (\<bar>x\<bar> / q)) * q))"

text \<open>
  The conversion \<open>float64(n)\<close> of a \<open>uint64\<close> and the three operations, each rounded once.
\<close>

definition binary64_of_uint64 :: "uint64 \<Rightarrow> float64" where
  "binary64_of_uint64 w = binary64 (real (unat w))"

definition float64_sub :: "float64 \<Rightarrow> float64 \<Rightarrow> float64" where
  "float64_sub x y = binary64 (x - y)"

definition float64_mul :: "float64 \<Rightarrow> float64 \<Rightarrow> float64" where
  "float64_mul x y = binary64 (x * y)"

definition float64_div :: "float64 \<Rightarrow> float64 \<Rightarrow> float64" where
  "float64_div x y = binary64 (x / y)"

section \<open>Errors\<close>

text \<open>
  A Go \<open>error\<close> is a value: the two package-level sentinels of \<open>mm_basic.go\<close>, an error
  made by \<open>fmt.Errorf\<close> from a message, and one that wraps another error with \<open>%w\<close>.
\<close>

datatype error =
    errNoBasisPrice
  | errOracleFiatMismatch
  | Errorf string
  | Wrapf string error

section \<open>Accounts (client/core/types.go)\<close>

text \<open>
  The key group of \<open>dexAccount\<close> (guarded by \<open>keyMtx\<close>) and the two flags of the auth
  group the constructor sets. \<open>privKey\<close> is a pointer: \<open>nil\<close> is \<open>None\<close>. The key type
  \<open>'k\<close> is \<open>secp256k1.PrivateKey\<close>. The field \<open>id\<close> is written \<open>id'\<close>. Each method
  holds its lock for its whole body, so a method is one step on the record.
\<close>

record 'k dexAccount =
  host :: string
  viewOnly :: bool
  encKey :: bytes
  privKey :: "'k option"
  id' :: bytes
  isAuthed :: bool
  disabled :: bool

text \<open>The fields of \<open>db.AccountInfo\<close> that \<open>newDEXAccount\<close> reads for these groups.\<close>

record AccountInfo =
  Host :: string
  EncKey :: bytes
  Disabled :: bool

definition newDEXAccount :: "AccountInfo \<Rightarrow> bool \<Rightarrow> 'k dexAccount" where
  "newDEXAccount acctInfo vo =
     \<lparr>host = Host acctInfo, viewOnly = vo, encKey = EncKey acctInfo, privKey = None,
      id' = [], isAuthed = False, disabled = Disabled acctInfo\<rparr>"

text \<open>
  \<open>unlock\<close> takes the crypter's \<open>Decrypt\<close>, \<open>secp256k1.PrivKeyFromBytes\<close> and the account
  ID of a key's public key (\<open>account.NewID\<close> of the compressed public key) as parameters.
\<close>

definition unlock ::
  "(bytes \<Rightarrow> error + bytes) \<Rightarrow> (bytes \<Rightarrow> 'k) \<Rightarrow> ('k \<Rightarrow> bytes) \<Rightarrow> 'k dexAccount
     \<Rightarrow> error + 'k dexAccount" where
  "unlock Decrypt PrivKeyFromBytes NewID a =
     (case Decrypt (encKey a) of
        Inl err \<Rightarrow> Inl err
      | Inr keyB \<Rightarrow>
          (let pk = PrivKeyFromBytes keyB
           in Inr (a\<lparr>privKey := Some pk, id' := NewID pk\<rparr>)))"

definition lock :: "'k dexAccount \<Rightarrow> 'k dexAccount" where
  "lock a = a\<lparr>privKey := None\<rparr>"

definition locked :: "'k dexAccount \<Rightarrow> bool" where
  "locked a = (privKey a = None)"

text \<open>\<open>sign\<close> takes \<open>signMsg\<close>, which is declared outside the files at hand, as a parameter.\<close>

definition sign :: "('k \<Rightarrow> bytes \<Rightarrow> bytes) \<Rightarrow> 'k dexAccount \<Rightarrow> bytes \<Rightarrow> error + bytes" where
  "sign signMsg a msg =
     (case privKey a of
        None \<Rightarrow> Inl (Errorf ''account locked'')
      | Some k \<Rightarrow> Inr (signMsg k msg))"

section \<open>Quantization to the rate step\<close>

text \<open>
  Modelled from the spec: \<open>steppedRate\<close> is a function of package \<open>mm\<close> that is called
  in \<open>mm_basic.go\<close> and declared in a file that is not at hand. Section 4.1 of the
  specification: round to the nearest multiple of the rate step; a zero input yields a
  zero output regardless of the step. A rate halfway between two multiples goes to the
  upper one, and the only multiple of a zero step is 0. The result is a \<open>uint64\<close>: a
  nearest multiple of \<open>2^64\<close> or more wraps around. The comment at the call in
  \<open>basisPrice\<close> (\<open>mm_basic.go\<close>, line 229) reads \<open>steppedRate(0, x) => x\<close>; the model
  follows the words of the specification.
\<close>

definition steppedRate :: "uint64 \<Rightarrow> uint64 \<Rightarrow> uint64" where
  "steppedRate r step =
     (if r = 0 then 0
      else word_of_nat ((2 * unat r + unat step) div (2 * unat step) * unat step))"

section \<open>Market-making configuration (client/mm/mm_basic.go)\<close>

type_synonym GapStrategy = string

definition GapStrategyMultiplier :: GapStrategy where
  "GapStrategyMultiplier = ''multiplier''"

definition GapStrategyAbsolute :: GapStrategy where
  "GapStrategyAbsolute = ''absolute''"

definition GapStrategyAbsolutePlus :: GapStrategy where
  "GapStrategyAbsolutePlus = ''absolute-plus''"

definition GapStrategyPercent :: GapStrategy where
  "GapStrategyPercent = ''percent''"

definition GapStrategyPercentPlus :: GapStrategy where
  "GapStrategyPercentPlus = ''percent-plus''"

record OrderPlacement =
  Lots :: uint64
  GapFactor :: float64

record BasicMarketMakingConfig =
  GapStrategy :: GapStrategy
  SellPlacements :: "OrderPlacement list"
  BuyPlacements :: "OrderPlacement list"
  DriftTolerance :: float64

definition needBreakEvenHalfSpread :: "GapStrategy \<Rightarrow> bool" where
  "needBreakEvenHalfSpread strat \<longleftrightarrow>
     strat = GapStrategyAbsolutePlus \<or> strat = GapStrategyPercentPlus
     \<or> strat = GapStrategyMultiplier"

subsection \<open>Rescaling the ladder to a new lot size\<close>

text \<open>
  The only way \<open>updateLotSize\<close> stops early is Go's run-time panic on the integer
  division \<open>qtyCounter / newLotSize\<close> by zero.
\<close>

datatype panic = IntegerDivideByZero

text \<open>The first loop: \<open>qtyCounter += p.Lots * originalLotSize\<close>, in \<open>uint64\<close>.\<close>

fun sumQty :: "uint64 \<Rightarrow> uint64 \<Rightarrow> OrderPlacement list \<Rightarrow> uint64" where
  "sumQty originalLotSize qtyCounter [] = qtyCounter"
| "sumQty originalLotSize qtyCounter (p # ps) =
     sumQty originalLotSize (qtyCounter + Lots p * originalLotSize) ps"

text \<open>
  The second loop, with the counter and the slice \<open>newPlacements\<close> it appends to. The
  float division comes first and does not panic; the integer division does.
\<close>

fun rescale ::
  "uint64 \<Rightarrow> uint64 \<Rightarrow> uint64 \<Rightarrow> OrderPlacement list \<Rightarrow> OrderPlacement list
     \<Rightarrow> panic + OrderPlacement list" where
  "rescale originalLotSize newLotSize qtyCounter newPlacements [] = Inr newPlacements"
| "rescale originalLotSize newLotSize qtyCounter newPlacements (p # ps) =
     (let lots = uint64_of_float64 (math_Round
            ((float64_of_uint64 (Lots p) * float64_of_uint64 originalLotSize)
               / float64_of_uint64 newLotSize));
          lots = max lots 1
      in if newLotSize = 0 then Inl IntegerDivideByZero
         else
           let maxLots = qtyCounter div newLotSize;
               lots = min lots maxLots
           in if lots = 0 then rescale originalLotSize newLotSize qtyCounter newPlacements ps
              else rescale originalLotSize newLotSize (qtyCounter - lots * newLotSize)
                     (newPlacements @ [\<lparr>Lots = lots, GapFactor = GapFactor p\<rparr>]) ps)"

definition updateLotSize ::
  "OrderPlacement list \<Rightarrow> uint64 \<Rightarrow> uint64 \<Rightarrow> panic + OrderPlacement list" where
  "updateLotSize placements originalLotSize newLotSize =
     rescale originalLotSize newLotSize (sumQty originalLotSize 0 placements) [] placements"

text \<open>The method of \<open>BasicMarketMakingConfig\<close>: the sell side first, then the buy side.\<close>

definition BasicMarketMakingConfig_updateLotSize ::
  "BasicMarketMakingConfig \<Rightarrow> uint64 \<Rightarrow> uint64 \<Rightarrow> panic + BasicMarketMakingConfig" where
  "BasicMarketMakingConfig_updateLotSize c originalLotSize newLotSize =
     (case updateLotSize (SellPlacements c) originalLotSize newLotSize of
        Inl e \<Rightarrow> Inl e
      | Inr sells \<Rightarrow>
          (case updateLotSize (BuyPlacements c) originalLotSize newLotSize of
             Inl e \<Rightarrow> Inl e
           | Inr buys \<Rightarrow> Inr (c\<lparr>SellPlacements := sells, BuyPlacements := buys\<rparr>)))"

subsection \<open>Quantities the claims about rescaling speak of\<close>

text \<open>
  The total quantity of a ladder at a lot size, as a natural number (no wrap-around),
  and the lot count of one rung under the new lot size as the first statement of the
  second loop computes it, before the two clamps.
\<close>

definition totalQuantity :: "uint64 \<Rightarrow> OrderPlacement list \<Rightarrow> nat" where
  "totalQuantity lot ps = sum_list (map (\<lambda>p. unat (Lots p) * unat lot) ps)"

definition rescaledLots :: "uint64 \<Rightarrow> uint64 \<Rightarrow> uint64 \<Rightarrow> uint64" where
  "rescaledLots lots originalLotSize newLotSize =
     uint64_of_float64 (math_Round
       ((float64_of_uint64 lots * float64_of_uint64 originalLotSize)
          / float64_of_uint64 newLotSize))"

section \<open>The price and fee calculator\<close>

text \<open>
  What the calculator and the bot read of the embedded \<open>*market\<close>: the lot size and the
  rate step (atomic values, loaded when used) and the method \<open>msgRate\<close>, which converts a
  conventional rate to a message rate and is declared in a file that is not at hand.
\<close>

record market =
  lotSize :: uint64
  rateStep :: uint64
  msgRate :: "float64 \<Rightarrow> uint64"

text \<open>
  \<open>basicMMCalculatorImpl\<close> with its collaborators as the values they return in one
  cycle: the oracle's market price, the rate from the fiat sources, and the fees of a
  one-lot order, \<open>OrderFeesInUnits(sell, max, rate)\<close>.
\<close>

record basicMMCalculatorImpl =
  b_market :: market
  getMarketPrice :: float64
  ExchangeRateFromFiatSources :: uint64
  OrderFeesInUnits :: "bool \<Rightarrow> bool \<Rightarrow> uint64 \<Rightarrow> error + uint64"

text \<open>
  The mismatch is computed in \<open>float64\<close>, and the untyped constant
  \<open>maxOracleFiatMismatch = 0.05\<close> becomes the nearest \<open>float64\<close> in the comparison.
\<close>

definition basisPrice :: "basicMMCalculatorImpl \<Rightarrow> error + uint64" where
  "basisPrice b =
     (let oracleRate = msgRate (b_market b) (getMarketPrice b);
          rateFromFiat = ExchangeRateFromFiatSources b;
          step = rateStep (b_market b)
      in if rateFromFiat = 0 then
           (if oracleRate = 0 then Inl errNoBasisPrice
            else Inr (steppedRate oracleRate step))
         else if oracleRate = 0 then Inr (steppedRate rateFromFiat step)
         else
           let mismatch =
                 \<bar>float64_div
                    (float64_sub (binary64_of_uint64 oracleRate)
                       (binary64_of_uint64 rateFromFiat))
                    (binary64_of_uint64 oracleRate)\<bar>
           in if mismatch > binary64 0.05 then Inl errOracleFiatMismatch
              else Inr (steppedRate oracleRate step))"

record FeeGapStats =
  BasisPrice :: uint64
  RemoteGap :: uint64
  FeeGap :: uint64
  RoundTripFees :: uint64

text \<open>
  \<open>calc.RateEncodingFactor\<close> is a constant of another package; \<open>feeGapStats\<close> takes it
  as its first argument. The struct literal leaves \<open>RemoteGap\<close> at its zero value. The
  argument \<open>basisPrice\<close> of the source is written \<open>bp\<close> from here on.
\<close>

definition feeGapStats :: "float64 \<Rightarrow> basicMMCalculatorImpl \<Rightarrow> uint64 \<Rightarrow> error + FeeGapStats" where
  "feeGapStats RateEncodingFactor b bp =
     (if bp = 0 then Inl (Errorf ''basis price cannot be zero'')
      else
        case OrderFeesInUnits b True True bp of
          Inl err \<Rightarrow> Inl (Wrapf ''error getting sell fees in base units: '' err)
        | Inr sellFeesInBaseUnits \<Rightarrow>
            (case OrderFeesInUnits b False True bp of
               Inl err \<Rightarrow> Inl (Wrapf ''error getting buy fees in base units: '' err)
             | Inr buyFeesInBaseUnits \<Rightarrow>
                 (let f = sellFeesInBaseUnits + buyFeesInBaseUnits;
                      l = lotSize (b_market b);
                      r = float64_div (binary64_of_uint64 bp) RateEncodingFactor;
                      g = float64_div (float64_mul (binary64_of_uint64 f) r)
                            (binary64_of_uint64 (f + 2 * l));
                      halfGap = uint64_of_float64
                                  (math_Round (float64_mul g RateEncodingFactor))
                  in Inr \<lparr>BasisPrice = bp, RemoteGap = 0, FeeGap = halfGap * 2,
                          RoundTripFees = f\<rparr>)))"

definition halfSpread :: "float64 \<Rightarrow> basicMMCalculatorImpl \<Rightarrow> uint64 \<Rightarrow> error + uint64" where
  "halfSpread RateEncodingFactor b bp =
     (case feeGapStats RateEncodingFactor b bp of
        Inl err \<Rightarrow> Inl err
      | Inr feeStats \<Rightarrow> Inr (FeeGap feeStats div 2))"

text \<open>
  The interface \<open>basicMMCalculator\<close> as a record of its three methods (\<open>basisPrice\<close>
  takes no argument and reads one cycle's rates, so it is a value), and the production
  implementation that \<open>botLoop\<close> installs.
\<close>

record basicMMCalculator =
  calc_basisPrice :: "error + uint64"
  calc_halfSpread :: "uint64 \<Rightarrow> error + uint64"
  calc_feeGapStats :: "uint64 \<Rightarrow> error + FeeGapStats"

definition calculatorImpl :: "float64 \<Rightarrow> basicMMCalculatorImpl \<Rightarrow> basicMMCalculator" where
  "calculatorImpl RateEncodingFactor b =
     \<lparr>calc_basisPrice = basisPrice b,
      calc_halfSpread = halfSpread RateEncodingFactor b,
      calc_feeGapStats = feeGapStats RateEncodingFactor b\<rparr>"

section \<open>The order placement planner\<close>

text \<open>
  What \<open>orderPrice\<close> and \<open>ordersToPlace\<close> read of \<open>basicMarketMaker\<close>: the configuration
  \<open>cfg()\<close>, the market and the calculator.
\<close>

record basicMarketMaker =
  m_cfg :: BasicMarketMakingConfig
  m_market :: market
  m_calculator :: basicMMCalculator

text \<open>
  \<open>TradePlacement\<close> has the fields \<open>Rate\<close> and \<open>Lots\<close>; its second field is written
  \<open>TLots\<close> here, \<open>Lots\<close> being the field of \<open>OrderPlacement\<close>.
\<close>

record TradePlacement =
  Rate :: uint64
  TLots :: uint64

text \<open>The two \<open>switch\<close> statements have no default case: an unknown strategy leaves \<open>adj\<close> at 0.\<close>

definition orderPrice :: "basicMarketMaker \<Rightarrow> uint64 \<Rightarrow> uint64 \<Rightarrow> bool \<Rightarrow> float64 \<Rightarrow> uint64" where
  "orderPrice m bp feeAdj sell gapFactor =
     (let strat = GapStrategy (m_cfg m);
          adj =
            (if strat = GapStrategyMultiplier then
               uint64_of_float64 (math_Round (float64_of_uint64 feeAdj * gapFactor))
             else if strat = GapStrategyPercent \<or> strat = GapStrategyPercentPlus then
               uint64_of_float64 (math_Round (gapFactor * float64_of_uint64 bp))
             else if strat = GapStrategyAbsolute \<or> strat = GapStrategyAbsolutePlus then
               msgRate (m_market m) gapFactor
             else 0);
          adj =
            (if strat = GapStrategyAbsolutePlus \<or> strat = GapStrategyPercentPlus
             then adj + feeAdj else adj);
          adj = steppedRate adj (rateStep (m_market m))
      in if sell then bp + adj
         else if bp < adj then 0
         else bp - adj)"

text \<open>The closure \<open>orders\<close> of \<open>ordersToPlace\<close>: one appended placement per rung.\<close>

fun orders ::
  "basicMarketMaker \<Rightarrow> uint64 \<Rightarrow> uint64 \<Rightarrow> bool \<Rightarrow> TradePlacement list \<Rightarrow> OrderPlacement list
     \<Rightarrow> TradePlacement list" where
  "orders m bp feeAdj sell placements [] = placements"
| "orders m bp feeAdj sell placements (p # ps) =
     (let rate = orderPrice m bp feeAdj sell (GapFactor p);
          lots = (if rate = 0 then 0 else Lots p)
      in orders m bp feeAdj sell (placements @ [\<lparr>Rate = rate, TLots = lots\<rparr>]) ps)"

text \<open>
  \<open>ordersToPlace\<close> returns the buy orders and the sell orders, or the error. The fee
  gap it hands to \<open>registerFeeGap\<close> and the trace logging do not reach its result.
\<close>

definition ordersToPlace ::
  "basicMarketMaker \<Rightarrow> error + TradePlacement list \<times> TradePlacement list" where
  "ordersToPlace m =
     (case calc_basisPrice (m_calculator m) of
        Inl err \<Rightarrow> Inl err
      | Inr bp \<Rightarrow>
          (case calc_feeGapStats (m_calculator m) bp of
             Inl err \<Rightarrow> Inl (Wrapf ''error calculating fee gap stats: '' err)
           | Inr feeGap \<Rightarrow>
               (let feeAdj =
                      (if needBreakEvenHalfSpread (GapStrategy (m_cfg m))
                       then FeeGap feeGap div 2 else 0);
                    buyOrders = orders m bp feeAdj False [] (BuyPlacements (m_cfg m));
                    sellOrders = orders m bp feeAdj True [] (SellPlacements (m_cfg m))
                in Inr (buyOrders, sellOrders))))"

section \<open>The rebalance step\<close>







section \<open>Inputs for the examples\<close>

text \<open>
  A market with a lot of \<open>10^8\<close> base units and a rate step of 1000, whose \<open>msgRate\<close>
  multiplies by \<open>10^8\<close> and rounds; and a calculator on it that reads an oracle price of
  1, a fiat rate 4% above it, and fees of 1700 base units for a one-lot order on either
  side.
\<close>

definition exampleMarket :: market where
  "exampleMarket =
     \<lparr>lotSize = 100000000, rateStep = 1000,
      msgRate = (\<lambda>p. uint64_of_float64 (math_Round (p * 100000000)))\<rparr>"

definition exampleCalculator :: basicMMCalculatorImpl where
  "exampleCalculator =
     \<lparr>b_market = exampleMarket, getMarketPrice = 1,
      ExchangeRateFromFiatSources = 104000000,
      OrderFeesInUnits = (\<lambda>sell useMax rate. Inr 1700)\<rparr>"

text \<open>
  A configuration with one rung on each side under the percent strategy, and a bot on
  the example market with a rate step of 1 whose calculator is a stand-in: a basis
  price of 500000 and a fee gap of 2000. The adaptor finds the bot healthy, and its
  \<open>multiTrade\<close> reports the number of placements it was given.
\<close>

definition exampleConfig :: BasicMarketMakingConfig where
  "exampleConfig =
     \<lparr>GapStrategy = GapStrategyPercent,
      SellPlacements = [\<lparr>Lots = 2, GapFactor = 0.02\<rparr>],
      BuyPlacements = [\<lparr>Lots = 1, GapFactor = 0.01\<rparr>],
      DriftTolerance = 0.001\<rparr>"

definition exampleBot :: basicMarketMaker where
  "exampleBot =
     \<lparr>m_cfg = exampleConfig,
      m_market = exampleMarket\<lparr>rateStep := 1\<rparr>,
      m_calculator =
        \<lparr>calc_basisPrice = Inr 500000,
         calc_halfSpread = (\<lambda>bp. Inr 1000),
         calc_feeGapStats = (\<lambda>bp. Inr \<lparr>BasisPrice = bp, RemoteGap = 0, FeeGap = 2000,
                                         RoundTripFees = 3400\<rparr>)\<rparr>\<rparr>"


section \<open>Signing\<close>

text \<open>
  C9. For every message, \<open>sign\<close> fails exactly when no private key is resident, and the
  failure is the error "account locked"; with a resident key it returns \<open>signMsg\<close> of that
  key and the message. A freshly constructed account (view-only or not) and an account
  after \<open>lock\<close> have no resident key, so signing fails for them; after a successful
  \<open>unlock\<close> signing succeeds with the decrypted key.
\<close>

theorem sign_fails_iff_no_key:
  "((\<exists>e. sign signMsg a msg = Inl e) \<longleftrightarrow> privKey a = None)
   \<and> (privKey a = None \<longrightarrow> sign signMsg a msg = Inl (Errorf ''account locked''))
   \<and> (\<forall>k. privKey a = Some k \<longrightarrow> sign signMsg a msg = Inr (signMsg k msg))
   \<and> sign signMsg (lock a) msg = Inl (Errorf ''account locked'')
   \<and> sign signMsg (newDEXAccount acctInfo vo) msg = Inl (Errorf ''account locked'')
   \<and> (\<forall>a'. unlock Decrypt PrivKeyFromBytes NewID a = Inr a' \<longrightarrow>
         (\<exists>keyB. Decrypt (encKey a) = Inr keyB
            \<and> sign signMsg a' msg = Inr (signMsg (PrivKeyFromBytes keyB) msg)))"
  by (auto simp: sign_def lock_def newDEXAccount_def unlock_def Let_def
      split: option.splits sum.splits)

theorem sign_fails_iff_no_key_witness:
  "sign (\<lambda>k m. k # m)
      (\<lparr>host = ''dex'', viewOnly = False, encKey = [1], privKey = Some (7 :: 8 word),
        id' = [], isAuthed = False, disabled = False\<rparr>) [2, 3] = Inr [7, 2, 3]
   \<and> sign (\<lambda>k m. k # m)
      (\<lparr>host = ''dex'', viewOnly = True, encKey = [], privKey = (None :: 8 word option),
        id' = [], isAuthed = False, disabled = False\<rparr>) [2, 3] = Inl (Errorf ''account locked'')
   \<and> (\<exists>a'. unlock (\<lambda>b. Inr b) (\<lambda>b. hd b) (\<lambda>k. [k])
      (\<lparr>host = ''dex'', viewOnly = False, encKey = [9], privKey = (None :: 8 word option),
        id' = [], isAuthed = False, disabled = False\<rparr>) = Inr a'
      \<and> sign (\<lambda>k m. k # m) a' [2, 3] = Inr [9, 2, 3])"
proof -
  let ?sg = "\<lambda>(k :: 8 word) (m :: bytes). k # m"
  let ?a = "\<lparr>host = ''dex'', viewOnly = False, encKey = [1], privKey = Some (7 :: 8 word),
        id' = [], isAuthed = False, disabled = False\<rparr>"
  let ?b = "\<lparr>host = ''dex'', viewOnly = True, encKey = [], privKey = (None :: 8 word option),
        id' = [], isAuthed = False, disabled = False\<rparr>"
  let ?c = "\<lparr>host = ''dex'', viewOnly = False, encKey = [9], privKey = (None :: 8 word option),
        id' = [], isAuthed = False, disabled = False\<rparr>"
  have ka: "privKey ?a = Some 7" by simp
  have kb: "privKey ?b = None" by simp
  have u: "unlock (\<lambda>b. Inr b) (\<lambda>b. hd b) (\<lambda>k. [k]) ?c
      = Inr (?c\<lparr>privKey := Some 9, id' := [9]\<rparr>)"
    by (simp add: unlock_def)
  have 1: "sign ?sg ?a [2, 3] = Inr [7, 2, 3]"
    using sign_fails_iff_no_key [of ?sg ?a "[2, 3]"] ka by simp
  have 2: "sign ?sg ?b [2, 3] = Inl (Errorf ''account locked'')"
    using sign_fails_iff_no_key [of ?sg ?b "[2, 3]"] kb by simp
  have 3: "sign ?sg (?c\<lparr>privKey := Some 9, id' := [9]\<rparr>) [2, 3] = Inr [9, 2, 3]"
    using sign_fails_iff_no_key [of ?sg ?c "[2, 3]"
        "\<lparr>Host = ''dex'', EncKey = [], Disabled = False\<rparr>" False
        "\<lambda>b. Inr b" "\<lambda>b. hd b" "\<lambda>k. [k]"] u by simp
  from 1 2 3 u show ?thesis by simp
qed

section \<open>Rescaling the ladder\<close>

subsection \<open>Word arithmetic of one iteration\<close>

lemma unat_le_div:
  fixes lots q n :: uint64
  assumes "n \<noteq> 0" "lots \<le> q div n"
  shows "unat lots * unat n \<le> unat q"
proof -
  have "unat lots \<le> unat q div unat n"
    using assms(2) by (simp add: word_le_nat_alt unat_div)
  then have "unat lots * unat n \<le> (unat q div unat n) * unat n"
    by (rule mult_le_mono1)
  also have "\<dots> \<le> unat q" by simp
  finally show ?thesis .
qed

lemma unat_sub_mult:
  fixes lots q n :: uint64
  assumes "n \<noteq> 0" "lots \<le> q div n"
  shows "unat (q - lots * n) = unat q - unat lots * unat n"
proof -
  have le: "unat lots * unat n \<le> unat q" using assms by (rule unat_le_div)
  have "unat q < 2 ^ LENGTH(64)" by (rule unsigned_less)
  with le have "unat lots * unat n < 2 ^ LENGTH(64)" by linarith
  then have m: "unat (lots * n) = unat lots * unat n"
    by (rule iffD1 [OF unat_mult_lem])
  with le have "lots * n \<le> q" by (simp add: word_le_nat_alt)
  then have "unat (q - lots * n) = unat q - unat (lots * n)" by (rule unat_sub)
  with m show ?thesis by simp
qed

lemma unat_add_le_sum: "unat ((a::uint64) + b) \<le> unat a + unat b"
  by (simp add: unat_word_ariths)

lemma unat_mult_le_prod: "unat ((a::uint64) * b) \<le> unat a * unat b"
  by (simp add: unat_word_ariths)

lemma sumQty_le:
  "unat (sumQty originalLotSize q ps) \<le> unat q + totalQuantity originalLotSize ps"
proof (induction ps arbitrary: q)
  case Nil
  then show ?case by (simp add: totalQuantity_def)
next
  case (Cons p ps)
  have "unat (sumQty originalLotSize (q + Lots p * originalLotSize) ps)
      \<le> unat (q + Lots p * originalLotSize) + totalQuantity originalLotSize ps"
    by (rule Cons.IH)
  moreover have "unat (q + Lots p * originalLotSize) \<le> unat q + unat (Lots p) * unat originalLotSize"
    using unat_add_le_sum [of q "Lots p * originalLotSize"]
      unat_mult_le_prod [of "Lots p" originalLotSize] by linarith
  ultimately show ?case by (simp add: totalQuantity_def)
qed

lemma rescale_step:
  assumes "newLotSize \<noteq> 0"
  shows "rescale originalLotSize newLotSize q acc (p # ps) =
     (if q < newLotSize then rescale originalLotSize newLotSize q acc ps
      else rescale originalLotSize newLotSize
             (q - min (max (rescaledLots (Lots p) originalLotSize newLotSize) 1) (q div newLotSize) * newLotSize)
             (acc @ [\<lparr>Lots = min (max (rescaledLots (Lots p) originalLotSize newLotSize) 1) (q div newLotSize),
                      GapFactor = GapFactor p\<rparr>]) ps)"
proof -
  let ?l = "max (rescaledLots (Lots p) originalLotSize newLotSize) 1"
  have l1: "?l \<noteq> 0"
    by (metis max.cobounded2 word_le_0_iff zero_neq_one)
  have d: "q div newLotSize = 0 \<longleftrightarrow> q < newLotSize"
    using assms
    by (simp add: word_less_nat_alt unat_div unat_eq_zero [symmetric] div_eq_0_iff)
  show ?thesis
  proof (cases "q < newLotSize")
    case True
    with d have "q div newLotSize = 0" by simp
    then have "min ?l (q div newLotSize) = 0" by simp
    with True assms show ?thesis
      by (simp add: Let_def rescaledLots_def)
  next
    case False
    with d have "q div newLotSize \<noteq> 0" by simp
    with l1 have "min ?l (q div newLotSize) \<noteq> 0" by (simp add: min_def)
    with False assms show ?thesis
      by (simp add: Let_def rescaledLots_def)
  qed
qed

lemma rescale_acc:
  "rescale originalLotSize newLotSize q acc ps =
     (case rescale originalLotSize newLotSize q [] ps of
        Inl e \<Rightarrow> Inl e | Inr out \<Rightarrow> Inr (acc @ out))"
proof (induction ps arbitrary: q acc)
  case Nil
  then show ?case by simp
next
  case (Cons p ps)
  show ?case
  proof (cases "newLotSize = 0")
    case True
    then show ?thesis by (simp add: Let_def)
  next
    case False
    show ?thesis
      unfolding rescale_step [OF False]
      using Cons.IH [of _ "acc @ [_]"] Cons.IH [of _ "[_]"] Cons.IH [of q acc]
      by (auto split: sum.splits)
  qed
qed

lemma rescale_Inr:
  assumes "newLotSize \<noteq> 0"
  shows "\<exists>out. rescale originalLotSize newLotSize q [] ps = Inr out
           \<and> totalQuantity newLotSize out \<le> unat q
           \<and> (\<forall>p \<in> set out. Lots p \<noteq> 0)
           \<and> subseq (map GapFactor out) (map GapFactor ps)"
proof (induction ps arbitrary: q)
  case Nil
  then show ?case by (simp add: totalQuantity_def)
next
  case (Cons p ps)
  show ?case
  proof (cases "q < newLotSize")
    case True
    from Cons.IH [of q] obtain out where
      "rescale originalLotSize newLotSize q [] ps = Inr out"
      "totalQuantity newLotSize out \<le> unat q" "\<forall>p \<in> set out. Lots p \<noteq> 0"
      "subseq (map GapFactor out) (map GapFactor ps)" by blast
    with True show ?thesis
      by (simp add: rescale_step [OF assms] list_emb_Cons del: rescale.simps)
  next
    case False
    let ?lots = "min (max (rescaledLots (Lots p) originalLotSize newLotSize) 1) (q div newLotSize)"
    let ?q = "q - ?lots * newLotSize"
    let ?p = "\<lparr>Lots = ?lots, GapFactor = GapFactor p\<rparr>"
    from Cons.IH [of ?q] obtain out where out:
      "rescale originalLotSize newLotSize ?q [] ps = Inr out"
      "totalQuantity newLotSize out \<le> unat ?q" "\<forall>p \<in> set out. Lots p \<noteq> 0"
      "subseq (map GapFactor out) (map GapFactor ps)" by blast
    have le: "?lots \<le> q div newLotSize" by simp
    have q: "unat ?q = unat q - unat ?lots * unat newLotSize"
      using assms le by (rule unat_sub_mult)
    have b: "unat ?lots * unat newLotSize \<le> unat q"
      using assms le by (rule unat_le_div)
    have "q div newLotSize \<noteq> 0"
      using False assms
      by (simp add: word_less_nat_alt unat_div unat_eq_zero [symmetric] div_eq_0_iff)
    moreover have "max (rescaledLots (Lots p) originalLotSize newLotSize) 1 \<noteq> 0"
      by (metis max.cobounded2 word_le_0_iff zero_neq_one)
    ultimately have nz: "?lots \<noteq> 0" by (simp add: min_def)
    have r: "rescale originalLotSize newLotSize q [] (p # ps) = Inr (?p # out)"
      using False out(1) rescale_acc [of originalLotSize newLotSize ?q "[?p]" ps]
      by (simp add: rescale_step [OF assms] del: rescale.simps)
    have "totalQuantity newLotSize (?p # out)
        = unat ?lots * unat newLotSize + totalQuantity newLotSize out"
      by (simp add: totalQuantity_def)
    with out(2) q b have t: "totalQuantity newLotSize (?p # out) \<le> unat q"
      by linarith
    from r t nz out(3,4) show ?thesis by simp
  qed
qed

lemma rescale_Inr_subseq:
  "rescale originalLotSize newLotSize q [] ps = Inr out
     \<Longrightarrow> subseq (map GapFactor out) (map GapFactor ps)"
proof (cases "newLotSize = 0")
  case True
  assume "rescale originalLotSize newLotSize q [] ps = Inr out"
  with True show ?thesis by (cases ps) (simp_all add: Let_def)
next
  case False
  assume r: "rescale originalLotSize newLotSize q [] ps = Inr out"
  from rescale_Inr [OF False, of originalLotSize q ps] r show ?thesis by auto
qed

subsection \<open>Total quantity\<close>

text \<open>
  C8 (as amended). For every placement list and every nonzero new lot size,
  \<open>updateLotSize\<close> returns, and the total quantity of what it returns at the new lot size
  never exceeds the total quantity of the input at the original lot size; the same holds
  for both sides of a configuration. Every returned rung has at least one lot. A rung is
  dropped exactly when the quantity still unassigned when the loop reaches it
  (\<open>qtyCounter\<close>) is less than one new lot; otherwise it is kept with its rescaled lot
  count raised to at least one lot and capped by \<open>qtyCounter / newLotSize\<close>.
\<close>

theorem updateLotSize_total_quantity:
  assumes "newLotSize \<noteq> 0"
  shows "(\<exists>out. updateLotSize placements originalLotSize newLotSize = Inr out
            \<and> totalQuantity newLotSize out \<le> totalQuantity originalLotSize placements
            \<and> (\<forall>p \<in> set out. 1 \<le> Lots p))
       \<and> (\<exists>c'. BasicMarketMakingConfig_updateLotSize c originalLotSize newLotSize = Inr c'
            \<and> totalQuantity newLotSize (SellPlacements c')
                 \<le> totalQuantity originalLotSize (SellPlacements c)
            \<and> totalQuantity newLotSize (BuyPlacements c')
                 \<le> totalQuantity originalLotSize (BuyPlacements c))
       \<and> (\<forall>qtyCounter newPlacements p ps.
             rescale originalLotSize newLotSize qtyCounter newPlacements (p # ps) =
               (if qtyCounter < newLotSize
                then rescale originalLotSize newLotSize qtyCounter newPlacements ps
                else rescale originalLotSize newLotSize
                  (qtyCounter
                     - min (max (rescaledLots (Lots p) originalLotSize newLotSize) 1)
                         (qtyCounter div newLotSize) * newLotSize)
                  (newPlacements @
                     [\<lparr>Lots = min (max (rescaledLots (Lots p) originalLotSize newLotSize) 1)
                               (qtyCounter div newLotSize),
                       GapFactor = GapFactor p\<rparr>]) ps))"
proof -
  have one: "\<exists>out. updateLotSize ps originalLotSize newLotSize = Inr out
            \<and> totalQuantity newLotSize out \<le> totalQuantity originalLotSize ps
            \<and> (\<forall>p \<in> set out. 1 \<le> Lots p)" for ps
  proof -
    from rescale_Inr [OF assms, of originalLotSize "sumQty originalLotSize 0 ps" ps]
    obtain out where out:
      "rescale originalLotSize newLotSize (sumQty originalLotSize 0 ps) [] ps = Inr out"
      "totalQuantity newLotSize out \<le> unat (sumQty originalLotSize 0 ps)"
      "\<forall>p \<in> set out. Lots p \<noteq> 0" by blast
    have "unat (sumQty originalLotSize 0 ps) \<le> totalQuantity originalLotSize ps"
      using sumQty_le [of originalLotSize 0 ps] by simp
    with out(2) have "totalQuantity newLotSize out \<le> totalQuantity originalLotSize ps"
      by linarith
    moreover have "\<forall>p \<in> set out. 1 \<le> Lots p"
      using out(3) by (simp add: word_le_nat_alt unat_eq_zero [symmetric] Suc_le_eq)
    ultimately show ?thesis using out(1) by (simp add: updateLotSize_def)
  qed
  from one [of "SellPlacements c"] one [of "BuyPlacements c"]
  have two: "\<exists>c'. BasicMarketMakingConfig_updateLotSize c originalLotSize newLotSize = Inr c'
            \<and> totalQuantity newLotSize (SellPlacements c')
                 \<le> totalQuantity originalLotSize (SellPlacements c)
            \<and> totalQuantity newLotSize (BuyPlacements c')
                 \<le> totalQuantity originalLotSize (BuyPlacements c)"
    by (auto simp: BasicMarketMakingConfig_updateLotSize_def)
  from one [of placements] two rescale_step [OF assms] show ?thesis by blast
qed

theorem updateLotSize_total_quantity_witness:
  "updateLotSize [\<lparr>Lots = 3, GapFactor = 1\<rparr>, \<lparr>Lots = 4, GapFactor = 2\<rparr>] 10 4
     = Inr [\<lparr>Lots = 8, GapFactor = 1\<rparr>, \<lparr>Lots = 9, GapFactor = 2\<rparr>]
   \<and> totalQuantity 4 [\<lparr>Lots = 8, GapFactor = 1\<rparr>, \<lparr>Lots = 9, GapFactor = 2\<rparr>]
       \<le> totalQuantity 10 [\<lparr>Lots = 3, GapFactor = 1\<rparr>, \<lparr>Lots = 4, GapFactor = 2\<rparr>]"
proof -
  have n: "(4 :: uint64) \<noteq> 0" by simp
  have e: "updateLotSize [\<lparr>Lots = 3, GapFactor = 1\<rparr>, \<lparr>Lots = 4, GapFactor = 2\<rparr>] 10 4
     = Inr [\<lparr>Lots = 8, GapFactor = 1\<rparr>, \<lparr>Lots = 9, GapFactor = 2\<rparr>]"
    by (simp add: updateLotSize_def Let_def math_Round_def float64_of_uint64_def
        uint64_of_float64_def)
  from updateLotSize_total_quantity [OF n,
      of "[\<lparr>Lots = 3, GapFactor = 1\<rparr>, \<lparr>Lots = 4, GapFactor = 2\<rparr>]" 10] e
  show ?thesis by auto
qed

text \<open>
  C8 as stated fails: with lots of size 1 rescaled to size 10, the lot count of the first
  rung (1 lot) rounds to zero lots, and the rung is kept with one lot.
\<close>

theorem updateLotSize_keeps_rung_rounding_to_zero:
  "uint64_of_float64 (math_Round
      ((float64_of_uint64 1 * float64_of_uint64 1) / float64_of_uint64 10)) = 0
   \<and> updateLotSize [\<lparr>Lots = 1, GapFactor = 1\<rparr>, \<lparr>Lots = 100, GapFactor = 2\<rparr>] 1 10
     = Inr [\<lparr>Lots = 1, GapFactor = 1\<rparr>, \<lparr>Lots = 9, GapFactor = 2\<rparr>]"
  by (simp add: updateLotSize_def Let_def math_Round_def float64_of_uint64_def
      uint64_of_float64_def)

subsection \<open>What rescaling leaves alone\<close>

text \<open>
  C10. For every placement list and nonzero new lot size \<open>updateLotSize\<close> returns a
  list; whenever it returns one, the gap factors of the output are a subsequence of the
  gap factors of the input (each output rung keeps the gap factor of the input rung it
  comes from, and the surviving rungs keep their relative order), and the output is not
  longer than the input.
\<close>

theorem updateLotSize_frame:
  "(newLotSize \<noteq> 0 \<longrightarrow>
      (\<exists>out. updateLotSize placements originalLotSize newLotSize = Inr out))
   \<and> (\<forall>out. updateLotSize placements originalLotSize newLotSize = Inr out \<longrightarrow>
         subseq (map GapFactor out) (map GapFactor placements)
         \<and> length out \<le> length placements)"
proof -
  have a: "\<exists>out. updateLotSize placements originalLotSize newLotSize = Inr out"
    if "newLotSize \<noteq> 0"
    using rescale_Inr [OF that, of originalLotSize
        "sumQty originalLotSize 0 placements" placements]
    by (auto simp: updateLotSize_def)
  have b: "subseq (map GapFactor out) (map GapFactor placements)
         \<and> length out \<le> length placements"
    if "updateLotSize placements originalLotSize newLotSize = Inr out" for out
  proof -
    from that have s: "subseq (map GapFactor out) (map GapFactor placements)"
      unfolding updateLotSize_def by (rule rescale_Inr_subseq)
    from list_emb_length [OF s] s show ?thesis by simp
  qed
  from a b show ?thesis by blast
qed

theorem updateLotSize_frame_witness:
  "updateLotSize [\<lparr>Lots = 100, GapFactor = 1\<rparr>, \<lparr>Lots = 1, GapFactor = 2\<rparr>] 1 10
     = Inr [\<lparr>Lots = 10, GapFactor = 1\<rparr>]
   \<and> subseq [1 :: float64] [1, 2] \<and> length [\<lparr>Lots = 10 :: uint64, GapFactor = 1 :: float64\<rparr>] \<le> (2 :: nat)"
proof -
  have e: "updateLotSize [\<lparr>Lots = 100, GapFactor = 1\<rparr>, \<lparr>Lots = 1, GapFactor = 2\<rparr>] 1 10
     = Inr [\<lparr>Lots = 10, GapFactor = 1\<rparr>]"
    by (simp add: updateLotSize_def Let_def math_Round_def float64_of_uint64_def
        uint64_of_float64_def)
  from updateLotSize_frame [of 10
      "[\<lparr>Lots = 100, GapFactor = 1\<rparr>, \<lparr>Lots = 1, GapFactor = 2\<rparr>]" 1] e
  show ?thesis by simp
qed

section \<open>Quantization\<close>






section \<open>Rounding to binary64\<close>

lemma rne_of_int [simp]: "rne (of_int k) = k"
  by (simp add: rne_def)

lemma rne_ge_floor: "\<lfloor>x\<rfloor> \<le> rne x"
  by (simp add: rne_def Let_def)

lemma rne_le_floor1: "rne x \<le> \<lfloor>x\<rfloor> + 1"
  by (simp add: rne_def Let_def)

lemma rne_lower: "of_int m \<le> x \<Longrightarrow> m \<le> rne x"
proof -
  assume "of_int m \<le> x"
  then have "m \<le> \<lfloor>x\<rfloor>" by (simp add: le_floor_iff)
  with rne_ge_floor [of x] show ?thesis by linarith
qed

lemma rne_upper: "x \<le> of_int m \<Longrightarrow> rne x \<le> m"
proof -
  assume a: "x \<le> of_int m"
  then have "\<lfloor>x\<rfloor> \<le> \<lfloor>real_of_int m\<rfloor>" by (rule floor_mono)
  then have f: "\<lfloor>x\<rfloor> \<le> m" by simp
  show ?thesis
  proof (cases "\<lfloor>x\<rfloor> = m")
    case True
    with a have "x = of_int m" by linarith
    then show ?thesis by simp
  next
    case False
    with f have "\<lfloor>x\<rfloor> + 1 \<le> m" by simp
    with rne_le_floor1 [of x] show ?thesis by linarith
  qed
qed

lemma rne_mono: "x \<le> y \<Longrightarrow> rne x \<le> rne y"
proof -
  assume le: "x \<le> y"
  then have f: "\<lfloor>x\<rfloor> \<le> \<lfloor>y\<rfloor>" by (rule floor_mono)
  show ?thesis
  proof (cases "\<lfloor>x\<rfloor> = \<lfloor>y\<rfloor>")
    case True
    with le show ?thesis by (auto simp: rne_def Let_def)
  next
    case False
    with f have "\<lfloor>x\<rfloor> + 1 \<le> \<lfloor>y\<rfloor>" by simp
    with rne_le_floor1 [of x] rne_ge_floor [of y] show ?thesis by linarith
  qed
qed

lemma halvings_spec:
  "1 \<le> x \<Longrightarrow> x < 2 ^ Suc n \<Longrightarrow> 2 ^ halvings n x \<le> x \<and> x < 2 ^ Suc (halvings n x)"
proof (induction n arbitrary: x)
  case 0
  then show ?case by simp
next
  case (Suc n)
  show ?case
  proof (cases "2 \<le> x")
    case True
    then have "1 \<le> x / 2" by simp
    moreover have "x / 2 < 2 ^ Suc n" using Suc.prems(2) by simp
    ultimately have "2 ^ halvings n (x / 2) \<le> x / 2 \<and> x / 2 < 2 ^ Suc (halvings n (x / 2))"
      by (rule Suc.IH)
    with True show ?thesis by simp
  next
    case False
    with Suc.prems show ?thesis by simp
  qed
qed

lemma doublings_spec:
  "0 < x \<Longrightarrow> x < 1 \<Longrightarrow> 1 \<le> x * 2 ^ n
     \<Longrightarrow> 1 \<le> x * 2 ^ doublings n x \<and> x * 2 ^ doublings n x < 2"
proof (induction n arbitrary: x)
  case 0
  then show ?case by simp
next
  case (Suc n)
  show ?case
  proof (cases "2 * x < 1")
    case True
    have "1 \<le> 2 * x * 2 ^ doublings n (2 * x) \<and> 2 * x * 2 ^ doublings n (2 * x) < 2"
      using Suc.prems True by (intro Suc.IH) (simp_all add: mult.assoc)
    with Suc.prems show ?thesis by (simp add: mult.assoc mult.left_commute)
  next
    case False
    then have "doublings n (2 * x) = 0" by (cases n) simp_all
    with Suc.prems False show ?thesis by simp
  qed
qed

lemma exponent_bounds:
  assumes "2 powi (- 1022) \<le> x" "x < 2 powi 1024"
  shows "2 powi exponent x \<le> x \<and> x < 2 powi (exponent x + 1)"
proof (cases "1 \<le> x")
  case True
  have "x < 2 ^ Suc 1023" using assms(2) by simp
  with True have "2 ^ halvings 1023 x \<le> x \<and> x < 2 ^ Suc (halvings 1023 x)"
    by (rule halvings_spec)
  moreover have "exponent x = int (halvings 1023 x)"
    using True by (simp add: exponent_def)
  moreover have "int (halvings 1023 x) + 1 = int (Suc (halvings 1023 x))" by simp
  ultimately show ?thesis by (simp only: power_int_of_nat)
next
  case False
  let ?d = "doublings 1022 x"
  have pos: "0 < x"
    using assms(1) zero_less_power_int [of "2 :: real" "- 1022"] by linarith
  have "1 \<le> x * 2 ^ 1022"
    using assms(1) by (simp add: power_int_minus field_simps)
  with pos False have d: "1 \<le> x * 2 ^ ?d \<and> x * 2 ^ ?d < 2"
    by (intro doublings_spec) simp_all
  have e: "exponent x = - int ?d" using False by (simp add: exponent_def)
  have p: "(2 :: real) powi (- int ?d) = 1 / 2 ^ ?d"
    by (simp add: power_int_minus field_simps)
  have "(2 :: real) powi (- int ?d + 1) = 2 powi (- int ?d) * 2 powi 1"
    by (rule power_int_add) simp
  with p have p1: "(2 :: real) powi (- int ?d + 1) = 2 / 2 ^ ?d" by simp
  from d show ?thesis
    unfolding e p p1 by (simp add: field_simps)
qed

lemma exponent_unique:
  assumes "2 powi e \<le> x" "x < 2 powi (e + 1)" "- 1022 \<le> e" "e \<le> 1023"
  shows "exponent x = e"
proof -
  have lo: "(2 :: real) powi (- 1022) \<le> 2 powi e"
    using assms(3) by (intro power_int_increasing) simp_all
  have hi: "(2 :: real) powi (e + 1) \<le> 2 powi 1024"
    using assms(4) by (intro power_int_increasing) simp_all
  from lo hi assms(1,2) have r: "2 powi (- 1022) \<le> x" "x < 2 powi 1024" by linarith+
  from exponent_bounds [OF r]
  have b: "2 powi exponent x \<le> x" "x < 2 powi (exponent x + 1)" by simp_all
  show ?thesis
  proof (rule ccontr)
    assume "exponent x \<noteq> e"
    then consider "exponent x + 1 \<le> e" | "e + 1 \<le> exponent x" by linarith
    then show False
    proof cases
      case 1
      then have "(2 :: real) powi (exponent x + 1) \<le> 2 powi e"
        by (intro power_int_increasing) simp_all
      with b(2) assms(1) show False by linarith
    next
      case 2
      then have "(2 :: real) powi (e + 1) \<le> 2 powi exponent x"
        by (intro power_int_increasing) simp_all
      with b(1) assms(2) show False by linarith
    qed
  qed
qed

lemma binary64_pos:
  assumes "2 powi e \<le> x" "x < 2 powi (e + 1)" "- 1022 \<le> e" "e \<le> 1023"
  shows "binary64 x = of_int (rne (x / 2 powi (e - 52))) * 2 powi (e - 52)"
proof -
  have "0 < x" using assms(1) zero_less_power_int [of "2 :: real" e] by linarith
  then have "\<bar>x\<bar> = x" "sgn x = 1" by simp_all
  then show ?thesis
    by (simp add: binary64_def Let_def exponent_unique [OF assms])
qed

lemma binary64_0 [simp]: "binary64 0 = 0"
  by (simp add: binary64_def)

lemma binary64_minus: "binary64 (- x) = - binary64 x"
  by (simp add: binary64_def Let_def sgn_minus)

lemma binary64_nonneg:
  assumes "0 \<le> x"
  shows "0 \<le> binary64 x"
proof -
  let ?q = "(2 :: real) powi (exponent \<bar>x\<bar> - 52)"
  have q: "0 < ?q" by (rule zero_less_power_int) simp
  then have "real_of_int 0 \<le> \<bar>x\<bar> / ?q" by simp
  then have "0 \<le> rne (\<bar>x\<bar> / ?q)" by (rule rne_lower)
  then have "0 \<le> real_of_int (rne (\<bar>x\<bar> / ?q)) * ?q" using q by simp
  moreover have "0 \<le> sgn x" using assms by (simp add: sgn_if)
  ultimately have "0 \<le> sgn x * (real_of_int (rne (\<bar>x\<bar> / ?q)) * ?q)"
    by (rule mult_nonneg_nonneg [rotated])
  then show ?thesis by (simp add: binary64_def Let_def)
qed

lemma binary64_abs: "\<bar>binary64 x\<bar> = binary64 \<bar>x\<bar>"
proof (cases "0 \<le> x")
  case True
  with binary64_nonneg [OF True] show ?thesis by simp
next
  case False
  then have n: "0 \<le> - x" by simp
  from binary64_nonneg [OF n] False show ?thesis by (simp add: binary64_minus)
qed

lemma binary64_bounds:
  assumes "2 powi e \<le> x" "x < 2 powi (e + 1)" "- 1022 \<le> e" "e \<le> 1023"
  shows "2 powi e \<le> binary64 x \<and> binary64 x \<le> 2 powi (e + 1)"
proof -
  let ?q = "(2 :: real) powi (e - 52)"
  have q: "0 < ?q" by (rule zero_less_power_int) simp
  have lo: "(2 :: real) powi e = of_int (2 ^ 52) * ?q"
    using power_int_add [of "2 :: real" 52 "e - 52"] by simp
  have hi: "(2 :: real) powi (e + 1) = of_int (2 ^ 53) * ?q"
    using power_int_add [of "2 :: real" 53 "e - 52"] by (simp add: add.commute)
  have "of_int (2 ^ 52) \<le> x / ?q"
    using assms(1) q unfolding lo by (simp add: field_simps)
  then have a: "2 ^ 52 \<le> rne (x / ?q)" by (rule rne_lower)
  have "x / ?q \<le> of_int (2 ^ 53)"
    using assms(2) q unfolding hi by (simp add: field_simps)
  then have b: "rne (x / ?q) \<le> 2 ^ 53" by (rule rne_upper)
  have "of_int (2 ^ 52) * ?q \<le> of_int (rne (x / ?q)) * ?q"
    using a q by (intro mult_right_mono) simp_all
  moreover have "of_int (rne (x / ?q)) * ?q \<le> of_int (2 ^ 53) * ?q"
    using b q by (intro mult_right_mono) simp_all
  ultimately show ?thesis
    unfolding binary64_pos [OF assms] lo hi by simp
qed

lemma binary64_mono_pos:
  assumes "2 powi (- 1022) \<le> x" "x \<le> y" "y < 2 powi 1024"
  shows "binary64 x \<le> binary64 y"
proof -
  have xr: "2 powi (- 1022) \<le> x" "x < 2 powi 1024" using assms by linarith+
  have yr: "2 powi (- 1022) \<le> y" "y < 2 powi 1024" using assms by linarith+
  let ?ex = "exponent x" and ?ey = "exponent y"
  from exponent_bounds [OF xr] have bx: "2 powi ?ex \<le> x" "x < 2 powi (?ex + 1)" by simp_all
  from exponent_bounds [OF yr] have by': "2 powi ?ey \<le> y" "y < 2 powi (?ey + 1)" by simp_all
  have rx: "- 1022 \<le> ?ex" "?ex \<le> 1023"
  proof -
    show "- 1022 \<le> ?ex"
    proof (rule ccontr)
      assume "\<not> - 1022 \<le> ?ex"
      then have "?ex + 1 \<le> - 1022" by simp
      then have "(2 :: real) powi (?ex + 1) \<le> 2 powi (- 1022)"
        by (intro power_int_increasing) simp_all
      with bx(2) xr(1) show False by linarith
    qed
    show "?ex \<le> 1023"
    proof (rule ccontr)
      assume "\<not> ?ex \<le> 1023"
      then have "1024 \<le> ?ex" by simp
      then have "(2 :: real) powi 1024 \<le> 2 powi ?ex"
        by (intro power_int_increasing) simp_all
      with bx(1) xr(2) show False by linarith
    qed
  qed
  have ry: "- 1022 \<le> ?ey" "?ey \<le> 1023"
  proof -
    show "- 1022 \<le> ?ey"
    proof (rule ccontr)
      assume "\<not> - 1022 \<le> ?ey"
      then have "?ey + 1 \<le> - 1022" by simp
      then have "(2 :: real) powi (?ey + 1) \<le> 2 powi (- 1022)"
        by (intro power_int_increasing) simp_all
      with by'(2) yr(1) show False by linarith
    qed
    show "?ey \<le> 1023"
    proof (rule ccontr)
      assume "\<not> ?ey \<le> 1023"
      then have "1024 \<le> ?ey" by simp
      then have "(2 :: real) powi 1024 \<le> 2 powi ?ey"
        by (intro power_int_increasing) simp_all
      with by'(1) yr(2) show False by linarith
    qed
  qed
  have le: "?ex \<le> ?ey"
  proof (rule ccontr)
    assume "\<not> ?ex \<le> ?ey"
    then have "?ey + 1 \<le> ?ex" by simp
    then have "(2 :: real) powi (?ey + 1) \<le> 2 powi ?ex"
      by (intro power_int_increasing) simp_all
    with bx(1) by'(2) assms(2) show False by linarith
  qed
  show ?thesis
  proof (cases "?ex = ?ey")
    case True
    let ?q = "(2 :: real) powi (?ey - 52)"
    have q: "0 < ?q" by (rule zero_less_power_int) simp
    have "x / ?q \<le> y / ?q" using assms(2) q by (simp add: divide_right_mono)
    then have "rne (x / ?q) \<le> rne (y / ?q)" by (rule rne_mono)
    then have "of_int (rne (x / ?q)) * ?q \<le> of_int (rne (y / ?q)) * ?q"
      using q by (intro mult_right_mono) simp_all
    then show ?thesis
      using binary64_pos [OF bx rx] binary64_pos [OF by' ry] True by simp
  next
    case False
    with le have "?ex + 1 \<le> ?ey" by simp
    then have "(2 :: real) powi (?ex + 1) \<le> 2 powi ?ey"
      by (intro power_int_increasing) simp_all
    with binary64_bounds [OF bx rx] binary64_bounds [OF by' ry] show ?thesis by linarith
  qed
qed

lemma binary64_mono:
  assumes "x = 0 \<or> 2 powi (- 1022) \<le> x" "x \<le> y" "y < 2 powi 1024"
  shows "binary64 x \<le> binary64 y"
proof (cases "x = 0")
  case True
  with assms(2) binary64_nonneg [of y] show ?thesis by simp
next
  case False
  with assms show ?thesis by (intro binary64_mono_pos) simp_all
qed

lemma binary64_of_nat:
  assumes "n < 2 ^ 53"
  shows "binary64 (real n) = real n"
proof (cases "n = 0")
  case True
  then show ?thesis by simp
next
  case False
  let ?x = "real n"
  have one: "1 \<le> ?x" using False by simp
  have "(2 :: real) powi (- 1022) \<le> 2 powi 0"
    by (intro power_int_increasing) simp_all
  with one have lo: "2 powi (- 1022) \<le> ?x" by simp
  have "?x < 2 ^ 53" using assms by (metis of_nat_less_iff of_nat_numeral of_nat_power)
  then have lt53: "?x < 2 powi 53" by simp
  have "(2 :: real) powi 53 \<le> 2 powi 1024"
    by (intro power_int_increasing) simp_all
  with lt53 have hi: "?x < 2 powi 1024" by linarith
  let ?e = "exponent ?x"
  from exponent_bounds [OF lo hi] have b: "2 powi ?e \<le> ?x" "?x < 2 powi (?e + 1)" by simp_all
  have e0: "0 \<le> ?e" using one by (simp add: exponent_def)
  have e52: "?e \<le> 52"
  proof (rule ccontr)
    assume "\<not> ?e \<le> 52"
    then have "53 \<le> ?e" by simp
    then have "(2 :: real) powi 53 \<le> 2 powi ?e"
      by (intro power_int_increasing) simp_all
    with b(1) lt53 show False by linarith
  qed
  have r: "- 1022 \<le> ?e" "?e \<le> 1023" using e0 e52 by simp_all
  from e52 obtain k :: nat where k: "52 - ?e = int k"
    using zero_le_imp_eq_int [of "52 - ?e"] by auto
  then have h: "?e - 52 = - int k" by simp
  have "(2 :: real) powi (- int k) = 1 / 2 ^ k"
    by (simp add: power_int_minus field_simps)
  then have q: "(2 :: real) powi (?e - 52) = 1 / 2 ^ k" unfolding h .
  have "?x / (1 / 2 ^ k) = of_int (int n * 2 ^ k)" by simp
  then have "rne (?x / (1 / 2 ^ k)) = int n * 2 ^ k"
    by (simp only: rne_of_int)
  then show ?thesis
    unfolding binary64_pos [OF b r] q by simp
qed

lemma binary64_of_int:
  assumes "\<bar>k\<bar> < 2 ^ 53"
  shows "binary64 (of_int k) = of_int k"
proof (cases "0 \<le> k")
  case True
  then obtain n :: nat where n: "k = int n" using zero_le_imp_eq_int by auto
  with assms have "n < 2 ^ 53" by (metis abs_of_nat of_nat_less_iff of_nat_numeral of_nat_power)
  from binary64_of_nat [OF this] n show ?thesis by simp
next
  case False
  then have "0 \<le> - k" by simp
  then obtain n :: nat where n: "- k = int n" using zero_le_imp_eq_int [of "- k"] by auto
  with assms False have "n < 2 ^ 53"
    by (metis abs_minus_cancel abs_of_nat of_nat_less_iff of_nat_numeral of_nat_power)
  from binary64_of_nat [OF this] have "binary64 (real n) = real n" .
  moreover have "real_of_int k = - real n" using n by linarith
  ultimately show ?thesis by (simp add: binary64_minus)
qed

lemma binary64_one_twentieth: "binary64 (1 / 20) = 7205759403792794 / 2 ^ 57"
proof -
  have "binary64 (1 / 20)
      = of_int (rne ((1 / 20) / 2 powi (- 5 - 52))) * 2 powi (- 5 - 52)"
    by (rule binary64_pos) (simp_all add: power_int_minus)
  also have "(1 / 20 :: real) / 2 powi (- 5 - 52) = 144115188075855872 / 20"
    by (simp add: power_int_minus)
  also have "rne (144115188075855872 / 20) = 7205759403792794"
    by (simp add: rne_def Let_def)
  finally show ?thesis by (simp add: power_int_minus)
qed

lemma binary64_next_above: "binary64 (7205759403792795 / 2 ^ 57) = 7205759403792795 / 2 ^ 57"
proof -
  let ?x = "7205759403792795 / 2 ^ 57 :: real"
  have "binary64 ?x = of_int (rne (?x / 2 powi (- 5 - 52))) * 2 powi (- 5 - 52)"
    by (rule binary64_pos) (simp_all add: power_int_minus)
  also have "?x / 2 powi (- 5 - 52) = of_int 7205759403792795"
    by (simp add: power_int_minus)
  also have "rne (of_int 7205759403792795) = 7205759403792795"
    by (rule rne_of_int)
  finally show ?thesis by (simp add: power_int_minus)
qed

lemma mismatch_agrees:
  fixes oracleRate fiatRate :: nat
  assumes "0 < oracleRate" "oracleRate < 2 ^ 52" "fiatRate < 2 ^ 52"
  shows "binary64 (1 / 20)
           < \<bar>binary64 (binary64 (binary64 (real oracleRate) - binary64 (real fiatRate))
                / binary64 (real oracleRate))\<bar>
         \<longleftrightarrow> 1 / 20 < \<bar>real oracleRate - real fiatRate\<bar> / real oracleRate"
proof -
  let ?d = "int oracleRate - int fiatRate"
  let ?t = "\<bar>real oracleRate - real fiatRate\<bar> / real oracleRate"
  have o53: "oracleRate < 2 ^ 53" and f53: "fiatRate < 2 ^ 53" using assms(2,3) by simp_all
  have co: "binary64 (real oracleRate) = real oracleRate" by (rule binary64_of_nat [OF o53])
  have cf: "binary64 (real fiatRate) = real fiatRate" by (rule binary64_of_nat [OF f53])
  have dabs: "\<bar>?d\<bar> < 2 ^ 53" using o53 f53 by (auto simp: abs_if)
  have dr: "real oracleRate - real fiatRate = of_int ?d" by simp
  have cd: "binary64 (real oracleRate - real fiatRate) = real oracleRate - real fiatRate"
    unfolding dr by (rule binary64_of_int [OF dabs])
  have ab: "\<bar>binary64 ((real oracleRate - real fiatRate) / real oracleRate)\<bar> = binary64 ?t"
    by (simp add: binary64_abs)
  have t0: "0 \<le> ?t" by simp
  have tlo: "?t = 0 \<or> 2 powi (- 1022) \<le> ?t"
  proof (cases "?d = 0")
    case True
    then have "real oracleRate - real fiatRate = 0" by linarith
    then show ?thesis by simp
  next
    case False
    then have "1 \<le> \<bar>?d\<bar>" by linarith
    then have "1 \<le> \<bar>real oracleRate - real fiatRate\<bar>" unfolding dr by linarith
    then have "1 / real oracleRate \<le> ?t"
      using assms(1) by (intro divide_right_mono) simp_all
    moreover have "1 / 2 ^ 52 \<le> 1 / real oracleRate"
      using assms(1,2) by (intro divide_left_mono) (simp_all add: less_imp_le)
    moreover have "(2 :: real) powi (- 1022) \<le> 2 powi (- 52)"
      by (intro power_int_increasing) simp_all
    moreover have "(2 :: real) powi (- 52) = 1 / 2 ^ 52" by (simp add: power_int_minus)
    ultimately show ?thesis by linarith
  qed
  have thi: "?t < 2 powi 1024"
  proof -
    have ro: "real oracleRate < 2 ^ 53"
      using o53 by (metis of_nat_less_iff of_nat_numeral of_nat_power)
    have rf: "real fiatRate < 2 ^ 53"
      using f53 by (metis of_nat_less_iff of_nat_numeral of_nat_power)
    have a: "\<bar>real oracleRate - real fiatRate\<bar> < 2 ^ 53" using ro rf by linarith
    have one: "1 \<le> real oracleRate" using assms(1) by simp
    have "?t \<le> \<bar>real oracleRate - real fiatRate\<bar> / 1"
      using one by (intro divide_left_mono) simp_all
    with a have "?t < 2 ^ 53" by simp
    moreover have "(2 :: real) powi 53 \<le> 2 powi 1024"
      by (intro power_int_increasing) simp_all
    ultimately show ?thesis by simp
  qed
  let ?c = "binary64 (1 / 20)"
  have "?c < binary64 ?t \<longleftrightarrow> 1 / 20 < ?t"
  proof
    assume gt: "1 / 20 < ?t"
    have "real oracleRate < 20 * \<bar>real oracleRate - real fiatRate\<bar>"
      using gt assms(1) by (simp add: field_simps)
    then have "int oracleRate < 20 * \<bar>?d\<bar>" unfolding dr by linarith
    then have "int oracleRate + 1 \<le> 20 * \<bar>?d\<bar>" by simp
    then have "real oracleRate + 1 \<le> 20 * \<bar>real oracleRate - real fiatRate\<bar>" unfolding dr by linarith
    then have "(real oracleRate + 1) / 20 \<le> \<bar>real oracleRate - real fiatRate\<bar>"
      by simp
    then have "(real oracleRate + 1) / 20 / real oracleRate \<le> ?t"
      by (intro divide_right_mono) simp_all
    moreover have "(real oracleRate + 1) / 20 / real oracleRate
        = 1 / 20 + 1 / (20 * real oracleRate)"
      using assms(1) by (simp add: field_simps)
    moreover have "1 / (20 * 2 ^ 52) \<le> 1 / (20 * real oracleRate)"
      using assms(1,2) by (intro divide_left_mono) (simp_all add: less_imp_le)
    moreover have "(7205759403792795 / 2 ^ 57 :: real) \<le> 1 / 20 + 1 / (20 * 2 ^ 52)"
      by simp
    ultimately have le: "7205759403792795 / 2 ^ 57 \<le> ?t" by linarith
    have "(2 :: real) powi (- 1022) \<le> 2 powi (- 5)"
      by (intro power_int_increasing) simp_all
    moreover have "(2 :: real) powi (- 5) \<le> 7205759403792795 / 2 ^ 57"
      by (simp add: power_int_minus)
    ultimately have "2 powi (- 1022) \<le> (7205759403792795 / 2 ^ 57 :: real)" by linarith
    then have "binary64 (7205759403792795 / 2 ^ 57) \<le> binary64 ?t"
      using le thi by (intro binary64_mono) simp_all
    then show "?c < binary64 ?t"
      unfolding binary64_next_above binary64_one_twentieth by simp
  next
    assume gt: "?c < binary64 ?t"
    show "1 / 20 < ?t"
    proof (rule ccontr)
      assume "\<not> 1 / 20 < ?t"
      then have le: "?t \<le> 1 / 20" by simp
      have "(1 / 20 :: real) < 2 powi 1024"
        using power_int_increasing [of 0 1024 "2 :: real"] by simp
      with tlo le have "binary64 ?t \<le> ?c" by (intro binary64_mono)
      with gt show False by simp
    qed
  qed
  then show ?thesis
    unfolding co cf cd ab .
qed

lemma binary64_eval:
  assumes "2 powi e \<le> x" "x < 2 powi (e + 1)" "- 1022 \<le> e" "e \<le> 1023"
    "rne (x / 2 powi (e - 52)) = m"
  shows "binary64 x = of_int m * 2 powi (e - 52)"
  using binary64_pos [OF assms(1-4)] assms(5) by simp

lemma binary64_of_uint64_small:
  assumes "unat w < 2 ^ 53"
  shows "binary64_of_uint64 w = real (unat w)"
  unfolding binary64_of_uint64_def by (rule binary64_of_nat [OF assms])

section \<open>The basis price\<close>

text \<open>
  C1 (as amended). With the oracle rate and the fiat rate read at the start of the
  cycle, \<open>basisPrice\<close> fails with \<open>errNoBasisPrice\<close> when both are 0; returns the stepped
  oracle rate when the fiat rate is 0 and the oracle rate is not; returns the stepped
  fiat rate when the oracle rate is 0 and the fiat rate is not; and, when both are
  nonzero, fails with \<open>errOracleFiatMismatch\<close> when the mismatch
  \<open>|oracle - fiat| / oracle\<close>, computed in \<open>float64\<close>, exceeds the \<open>float64\<close> constant
  0.05, and returns the stepped oracle rate (not the fiat rate, not an average)
  otherwise. For rates below \<open>2^52\<close> the comparison in \<open>float64\<close> decides exactly
  whether \<open>|oracle - fiat| / oracle > 0.05\<close>.
\<close>

theorem basisPrice_cases:
  "(let oracleRate = msgRate (b_market b) (getMarketPrice b);
        rateFromFiat = ExchangeRateFromFiatSources b;
        step = rateStep (b_market b);
        mismatch = \<bar>float64_div
                      (float64_sub (binary64_of_uint64 oracleRate)
                         (binary64_of_uint64 rateFromFiat))
                      (binary64_of_uint64 oracleRate)\<bar>
    in (oracleRate = 0 \<and> rateFromFiat = 0 \<longrightarrow> basisPrice b = Inl errNoBasisPrice)
     \<and> (oracleRate \<noteq> 0 \<and> rateFromFiat = 0 \<longrightarrow>
          basisPrice b = Inr (steppedRate oracleRate step))
     \<and> (oracleRate = 0 \<and> rateFromFiat \<noteq> 0 \<longrightarrow>
          basisPrice b = Inr (steppedRate rateFromFiat step))
     \<and> (oracleRate \<noteq> 0 \<and> rateFromFiat \<noteq> 0 \<and> mismatch > binary64 0.05 \<longrightarrow>
          basisPrice b = Inl errOracleFiatMismatch)
     \<and> (oracleRate \<noteq> 0 \<and> rateFromFiat \<noteq> 0 \<and> mismatch \<le> binary64 0.05 \<longrightarrow>
          basisPrice b = Inr (steppedRate oracleRate step))
     \<and> (oracleRate \<noteq> 0 \<and> unat oracleRate < 2 ^ 52 \<and> unat rateFromFiat < 2 ^ 52 \<longrightarrow>
          (mismatch > binary64 0.05
             \<longleftrightarrow> \<bar>real (unat oracleRate) - real (unat rateFromFiat)\<bar>
                   / real (unat oracleRate) > 0.05)))"
proof -
  let ?o = "msgRate (b_market b) (getMarketPrice b)"
  let ?f = "ExchangeRateFromFiatSources b"
  let ?m = "\<bar>float64_div (float64_sub (binary64_of_uint64 ?o) (binary64_of_uint64 ?f))
              (binary64_of_uint64 ?o)\<bar>"
  have cases: "(?o = 0 \<and> ?f = 0 \<longrightarrow> basisPrice b = Inl errNoBasisPrice)
     \<and> (?o \<noteq> 0 \<and> ?f = 0 \<longrightarrow>
          basisPrice b = Inr (steppedRate ?o (rateStep (b_market b))))
     \<and> (?o = 0 \<and> ?f \<noteq> 0 \<longrightarrow>
          basisPrice b = Inr (steppedRate ?f (rateStep (b_market b))))
     \<and> (?o \<noteq> 0 \<and> ?f \<noteq> 0 \<and> ?m > binary64 0.05 \<longrightarrow>
          basisPrice b = Inl errOracleFiatMismatch)
     \<and> (?o \<noteq> 0 \<and> ?f \<noteq> 0 \<and> ?m \<le> binary64 0.05 \<longrightarrow>
          basisPrice b = Inr (steppedRate ?o (rateStep (b_market b))))"
    by (simp add: basisPrice_def Let_def)
  have agree: "?m > binary64 0.05
      \<longleftrightarrow> \<bar>real (unat ?o) - real (unat ?f)\<bar> / real (unat ?o) > 0.05"
    if "?o \<noteq> 0" "unat ?o < 2 ^ 52" "unat ?f < 2 ^ 52"
  proof -
    have p: "0 < unat ?o" using that(1) by (simp add: unat_gt_0)
    have "?m = \<bar>binary64 (binary64 (binary64 (real (unat ?o)) - binary64 (real (unat ?f)))
                / binary64 (real (unat ?o)))\<bar>"
      by (simp only: float64_div_def float64_sub_def binary64_of_uint64_def)
    moreover have "(0.05 :: real) = 1 / 20" by simp
    ultimately show ?thesis
      using mismatch_agrees [OF p that(2,3)] by (simp only:)
  qed
  from cases agree show ?thesis
    unfolding Let_def by blast
qed

theorem basisPrice_cases_witness:
  "basisPrice (exampleCalculator\<lparr>getMarketPrice := 0, ExchangeRateFromFiatSources := 0\<rparr>)
      = Inl errNoBasisPrice
   \<and> basisPrice (exampleCalculator\<lparr>ExchangeRateFromFiatSources := 0\<rparr>) = Inr 100000000
   \<and> basisPrice (exampleCalculator\<lparr>getMarketPrice := 0\<rparr>) = Inr 104000000
   \<and> basisPrice (exampleCalculator\<lparr>ExchangeRateFromFiatSources := 106000000\<rparr>)
      = Inl errOracleFiatMismatch
   \<and> basisPrice exampleCalculator = Inr 100000000"
proof -
  have r: "msgRate exampleMarket 0 = 0" "msgRate exampleMarket 1 = 100000000"
    "steppedRate 100000000 1000 = 100000000" "steppedRate 104000000 1000 = 104000000"
    by (simp_all add: exampleMarket_def steppedRate_def math_Round_def uint64_of_float64_def)
  have 1: "basisPrice (exampleCalculator\<lparr>getMarketPrice := 0, ExchangeRateFromFiatSources := 0\<rparr>)
      = Inl errNoBasisPrice"
    using basisPrice_cases
      [of "exampleCalculator\<lparr>getMarketPrice := 0, ExchangeRateFromFiatSources := 0\<rparr>"] r
    by (simp add: exampleCalculator_def Let_def)
  have 2: "basisPrice (exampleCalculator\<lparr>ExchangeRateFromFiatSources := 0\<rparr>) = Inr 100000000"
    using basisPrice_cases [of "exampleCalculator\<lparr>ExchangeRateFromFiatSources := 0\<rparr>"] r
    by (simp add: exampleCalculator_def Let_def exampleMarket_def)
  have 3: "basisPrice (exampleCalculator\<lparr>getMarketPrice := 0\<rparr>) = Inr 104000000"
    using basisPrice_cases [of "exampleCalculator\<lparr>getMarketPrice := 0\<rparr>"] r
    by (simp add: exampleCalculator_def Let_def exampleMarket_def)
  have 4: "basisPrice (exampleCalculator\<lparr>ExchangeRateFromFiatSources := 106000000\<rparr>)
      = Inl errOracleFiatMismatch"
    using basisPrice_cases [of "exampleCalculator\<lparr>ExchangeRateFromFiatSources := 106000000\<rparr>"] r
    by (simp add: exampleCalculator_def Let_def exampleMarket_def)
  have 5: "basisPrice exampleCalculator = Inr 100000000"
    using basisPrice_cases [of exampleCalculator] r
    by (simp add: exampleCalculator_def Let_def exampleMarket_def)
  from 1 2 3 4 5 show ?thesis by simp
qed

text \<open>
  C1 as stated fails: with an oracle rate of 20000000000000000 and a fiat rate of
  21000000000000001 the mismatch exceeds 0.05, but the fiat rate becomes
  21000000000000000 in \<open>float64\<close>, the quotient is the \<open>float64\<close> constant 0.05 itself,
  and \<open>basisPrice\<close> returns the stepped oracle rate.
\<close>

theorem basisPrice_mismatch_rounded:
  "basisPrice (exampleCalculator
      \<lparr>getMarketPrice := 200000000, ExchangeRateFromFiatSources := 21000000000000001\<rparr>)
     = Inr 20000000000000000
   \<and> \<bar>20000000000000000 - 21000000000000001\<bar> / 20000000000000000 > (0.05 :: real)"
proof -
  have o: "msgRate exampleMarket 200000000 = 20000000000000000"
    by (simp add: exampleMarket_def math_Round_def uint64_of_float64_def)
  have co: "binary64 20000000000000000 = 20000000000000000"
  proof -
    have "binary64 20000000000000000
        = of_int (rne (20000000000000000 / 2 powi (54 - 52))) * 2 powi (54 - 52)"
      by (rule binary64_pos) simp_all
    also have "(20000000000000000 :: real) / 2 powi (54 - 52) = of_int 5000000000000000"
      by simp
    also have "rne (of_int 5000000000000000) = 5000000000000000" by (rule rne_of_int)
    finally show ?thesis by simp
  qed
  have cf: "binary64 21000000000000001 = 21000000000000000"
  proof -
    have "binary64 21000000000000001
        = of_int (rne (21000000000000001 / 2 powi (54 - 52))) * 2 powi (54 - 52)"
      by (rule binary64_pos) simp_all
    also have "(21000000000000001 :: real) / 2 powi (54 - 52) = 21000000000000001 / 4"
      by simp
    also have "rne (21000000000000001 / 4) = 5250000000000000"
      by (simp add: rne_def Let_def)
    finally show ?thesis by simp
  qed
  have sb: "binary64 (- 1000000000000000) = - 1000000000000000"
    using binary64_of_int [of "- 1000000000000000"] by simp
  have dv: "\<bar>binary64 (- (1 / 20))\<bar> = binary64 (1 / 20)"
    by (simp add: binary64_abs)
  have st: "steppedRate 20000000000000000 1000 = 20000000000000000"
    by (simp add: steppedRate_def)
  have "basisPrice (exampleCalculator
      \<lparr>getMarketPrice := 200000000, ExchangeRateFromFiatSources := 21000000000000001\<rparr>)
     = Inr 20000000000000000"
    using o
    by (simp add: basisPrice_def exampleCalculator_def Let_def float64_div_def
        float64_sub_def binary64_of_uint64_def co cf sb dv st exampleMarket_def)
  then show ?thesis by simp
qed

section \<open>The fee gap\<close>

lemma break_even_closed_form:
  fixes f r l :: real
  assumes "0 < r" "0 < l" "0 \<le> f"
  shows "f * r / (f + 2 * l) < r \<and> (r + f * r / (f + 2 * l)) * l / (r - f * r / (f + 2 * l)) = l + f"
proof -
  let ?d = "f + 2 * l"
  have d: "0 < ?d" using assms by simp
  have g: "r - f * r / ?d = r * (2 * l) / ?d"
    using d by (simp add: field_simps)
  have h: "r + f * r / ?d = r * (2 * f + 2 * l) / ?d"
    using d by (simp add: field_simps)
  have pos: "0 < r * (2 * l) / ?d" using assms d by simp
  with g have lt: "f * r / ?d < r" by linarith
  have "(r + f * r / ?d) * l / (r - f * r / ?d)
      = (r * (2 * f + 2 * l) / ?d) * l / (r * (2 * l) / ?d)"
    by (simp only: g h)
  also have "\<dots> = (r * (2 * f + 2 * l)) * l / (r * (2 * l))"
    using d by simp
  also have "\<dots> = l + f"
  proof -
    have nz: "r * (2 * l) \<noteq> 0" using assms by simp
    have "(r * (2 * f + 2 * l)) * l = (l + f) * (r * (2 * l))"
      by (simp add: algebra_simps)
    then show ?thesis using nz by simp
  qed
  finally show ?thesis using lt by simp
qed

text \<open>
  C2 (as amended). \<open>feeGapStats\<close> fails whenever the basis price is 0. For a nonzero
  basis price and fees of a one-lot sell and a one-lot buy that were fetched, it returns
  statistics with that basis price and with \<open>RoundTripFees = f\<close>, the sum of the two
  fees in \<open>uint64\<close>. Its \<open>FeeGap\<close> is twice the half-gap, which is
  \<open>g * RateEncodingFactor\<close> rounded to an integer, where \<open>g = f * r / (f + 2 * l)\<close>, for
  the lot size \<open>l\<close> and \<open>r\<close> the basis price divided by the rate encoding factor, is
  computed in \<open>float64\<close>. This is stated for a rate encoding factor that is a
  \<open>float64\<close> between 1 and \<open>2^53\<close>, a divisor \<open>f + 2 * l\<close> that is not 0 and a half-gap
  below \<open>2^64\<close>. The fee gap is not quantized to the rate step, on which the result
  does not depend. In exact arithmetic \<open>g\<close> is below \<open>r\<close> and solves
  \<open>(r + g) * l / (r - g) = l + f\<close> for every positive \<open>r\<close> and \<open>l\<close>.
\<close>

theorem feeGapStats_result:
  "feeGapStats RateEncodingFactor b 0 = Inl (Errorf ''basis price cannot be zero'')
   \<and> (bp \<noteq> 0 \<and> OrderFeesInUnits b True True bp = Inr sellFees
        \<and> OrderFeesInUnits b False True bp = Inr buyFees \<longrightarrow>
       (\<exists>stats. feeGapStats RateEncodingFactor b bp = Inr stats
          \<and> BasisPrice stats = bp \<and> RemoteGap stats = 0
          \<and> RoundTripFees stats = sellFees + buyFees
          \<and> (let f = sellFees + buyFees;
                  l = lotSize (b_market b);
                  r = float64_div (binary64_of_uint64 bp) RateEncodingFactor;
                  g = float64_div (float64_mul (binary64_of_uint64 f) r)
                        (binary64_of_uint64 (f + 2 * l));
                  halfGap = math_Round (float64_mul g RateEncodingFactor)
              in 1 \<le> RateEncodingFactor \<and> RateEncodingFactor \<le> 2 ^ 53
                   \<and> binary64 RateEncodingFactor = RateEncodingFactor
                   \<and> f + 2 * l \<noteq> 0 \<and> halfGap < 2 ^ 64 \<longrightarrow>
                 FeeGap stats = 2 * uint64_of_float64 halfGap)))
   \<and> feeGapStats RateEncodingFactor (b\<lparr>b_market := (b_market b)\<lparr>rateStep := step\<rparr>\<rparr>) bp
       = feeGapStats RateEncodingFactor b bp
   \<and> ((0 :: real) < ratio \<and> 0 < lot \<and> 0 \<le> fees \<longrightarrow>
        fees * ratio / (fees + 2 * lot) < ratio
        \<and> (ratio + fees * ratio / (fees + 2 * lot)) * lot
             / (ratio - fees * ratio / (fees + 2 * lot)) = lot + fees)"
proof -
  have A: "feeGapStats RateEncodingFactor b 0 = Inl (Errorf ''basis price cannot be zero'')"
    by (simp add: feeGapStats_def)
  have C: "feeGapStats RateEncodingFactor (b\<lparr>b_market := (b_market b)\<lparr>rateStep := step\<rparr>\<rparr>) bp
       = feeGapStats RateEncodingFactor b bp"
    by (simp add: feeGapStats_def cong: sum.case_cong)
  have B: "\<exists>stats. feeGapStats RateEncodingFactor b bp = Inr stats
          \<and> BasisPrice stats = bp \<and> RemoteGap stats = 0
          \<and> RoundTripFees stats = sellFees + buyFees
          \<and> (let f = sellFees + buyFees;
                  l = lotSize (b_market b);
                  r = float64_div (binary64_of_uint64 bp) RateEncodingFactor;
                  g = float64_div (float64_mul (binary64_of_uint64 f) r)
                        (binary64_of_uint64 (f + 2 * l));
                  halfGap = math_Round (float64_mul g RateEncodingFactor)
              in 1 \<le> RateEncodingFactor \<and> RateEncodingFactor \<le> 2 ^ 53
                   \<and> binary64 RateEncodingFactor = RateEncodingFactor
                   \<and> f + 2 * l \<noteq> 0 \<and> halfGap < 2 ^ 64 \<longrightarrow>
                 FeeGap stats = 2 * uint64_of_float64 halfGap)"
    if "bp \<noteq> 0" "OrderFeesInUnits b True True bp = Inr sellFees"
      "OrderFeesInUnits b False True bp = Inr buyFees"
    using that by (simp add: feeGapStats_def Let_def)
  have D: "fees * ratio / (fees + 2 * lot) < ratio
        \<and> (ratio + fees * ratio / (fees + 2 * lot)) * lot
             / (ratio - fees * ratio / (fees + 2 * lot)) = lot + fees"
    if "(0 :: real) < ratio" "0 < lot" "0 \<le> fees"
    using that by (rule break_even_closed_form)
  from A B C D show ?thesis by blast
qed

lemma binary64_of_uint64_numeral:
  "binary64_of_uint64 100000000 = 100000000" "binary64_of_uint64 3400 = 3400"
  "binary64_of_uint64 200003400 = 200003400" "binary64_of_uint64 585939 = 585939"
  "binary64_of_uint64 512 = 512" "binary64_of_uint64 200000512 = 200000512"
  by (simp_all add: binary64_of_uint64_small)

theorem feeGapStats_result_witness:
  "feeGapStats 100000000
      (exampleCalculator\<lparr>OrderFeesInUnits := (\<lambda>sell useMax rate. Inr 256)\<rparr>) 585939 =
     Inr \<lparr>BasisPrice = 585939, RemoteGap = 0, FeeGap = 2, RoundTripFees = 512\<rparr>
   \<and> (1 + 3400 / 200003400) * 100000000 / (1 - 3400 / 200003400) = (100003400 :: real)"
proof -
  let ?b = "exampleCalculator\<lparr>OrderFeesInUnits := (\<lambda>sell useMax rate. Inr 256)\<rparr>"
  have br: "float64_div 585939 100000000 = 6755416734878313 / 1152921504606846976"
    unfolding float64_div_def
    using binary64_eval [of "-8" "585939 / 100000000" 6755416734878313]
    by (simp add: power_int_minus rne_def Let_def)
  have bm: "float64_mul 512 (6755416734878313 / 1152921504606846976) = 6755416734878313 / 2251799813685248"
    unfolding float64_mul_def
    using binary64_eval [of 1 "512 * (6755416734878313 / 1152921504606846976)" 6755416734878313]
    by (simp add: power_int_minus rne_def Let_def)
  have bg: "float64_div (6755416734878313 / 2251799813685248) 200000512 = 4533471823554859 / 302231454903657293676544"
    unfolding float64_div_def
    using binary64_eval [of "-26" "(6755416734878313 / 2251799813685248) / 200000512" 4533471823554859]
    by (simp add: power_int_minus rne_def Let_def)
  have bx: "float64_mul (4533471823554859 / 302231454903657293676544) 100000000 = 6755399441055743 / 4503599627370496"
    unfolding float64_mul_def
    using binary64_eval [of 0 "(4533471823554859 / 302231454903657293676544) * 100000000" 6755399441055743]
    by (simp add: power_int_minus rne_def Let_def)
  have k: "binary64 100000000 = 100000000"
    using binary64_of_nat [of 100000000] by simp
  have h: "(585939 :: uint64) \<noteq> 0"
    "OrderFeesInUnits ?b True True 585939 = Inr 256"
    "OrderFeesInUnits ?b False True 585939 = Inr 256"
    "lotSize (b_market ?b) = 100000000"
    by (simp_all add: exampleCalculator_def exampleMarket_def)
  from feeGapStats_result [of 100000000 ?b 585939 256 256 1000 1 100000000 3400] h
  obtain stats where s: "feeGapStats 100000000 ?b 585939 = Inr stats"
    "BasisPrice stats = 585939" "RemoteGap stats = 0" "RoundTripFees stats = 512"
    "FeeGap stats = 2"
    and e: "(1 + 3400 / 200003400) * 100000000 / (1 - 3400 / 200003400) = (100003400 :: real)"
    by (auto simp: Let_def binary64_of_uint64_numeral br bm bg bx k math_Round_def
        uint64_of_float64_def)
  from s have "stats = \<lparr>BasisPrice = 585939, RemoteGap = 0, FeeGap = 2, RoundTripFees = 512\<rparr>"
    by (cases stats) simp
  with s(1) e show ?thesis by simp
qed

text \<open>
  C2 as stated fails: at a basis price of \<open>10^8\<close> on the example market the fee gap is
  3400, which is not a multiple of the rate step 1000; quantized to the rate step it
  would be 3000.
\<close>

theorem feeGapStats_not_stepped:
  "feeGapStats 100000000 exampleCalculator 100000000 =
     Inr \<lparr>BasisPrice = 100000000, RemoteGap = 0, FeeGap = 3400, RoundTripFees = 3400\<rparr>
   \<and> rateStep (b_market exampleCalculator) = 1000
   \<and> steppedRate 3400 1000 = 3000
   \<and> \<not> unat (1000 :: uint64) dvd unat (3400 :: uint64)"
proof -
  have ar: "float64_div 100000000 100000000 = 1"
    unfolding float64_div_def
    using binary64_eval [of 0 "100000000 / 100000000" 4503599627370496]
    by (simp add: power_int_minus rne_def Let_def)
  have am: "float64_mul 3400 1 = 3400"
    unfolding float64_mul_def
    using binary64_eval [of 11 "3400 * 1" 7476679068876800]
    by (simp add: power_int_minus rne_def Let_def)
  have ag: "float64_div 3400 200003400 = 2508714545877219 / 147573952589676412928"
    unfolding float64_div_def
    using binary64_eval [of "-16" "3400 / 200003400" 5017429091754438]
    by (simp add: power_int_minus rne_def Let_def)
  have ax: "float64_mul (2508714545877219 / 147573952589676412928) 100000000 = 934568995936669 / 549755813888"
    unfolding float64_mul_def
    using binary64_eval [of 10 "(2508714545877219 / 147573952589676412928) * 100000000" 7476551967493352]
    by (simp add: power_int_minus rne_def Let_def)
  have ah: "uint64_of_float64 (math_Round (934568995936669 / 549755813888)) = 1700"
    by (simp add: math_Round_def uint64_of_float64_def)
  have "feeGapStats 100000000 exampleCalculator 100000000 =
     Inr \<lparr>BasisPrice = 100000000, RemoteGap = 0, FeeGap = 3400, RoundTripFees = 3400\<rparr>"
    by (simp add: feeGapStats_def exampleCalculator_def exampleMarket_def Let_def
        binary64_of_uint64_numeral ar am ag ax ah)
  then show ?thesis
    by (simp add: exampleCalculator_def exampleMarket_def steppedRate_def)
qed

section \<open>Order prices\<close>

lemmas GapStrategy_defs = GapStrategyMultiplier_def GapStrategyAbsolute_def
  GapStrategyAbsolutePlus_def GapStrategyPercent_def GapStrategyPercentPlus_def



lemmas example_defs = exampleBot_def exampleConfig_def exampleMarket_def
  math_Round_def float64_of_uint64_def uint64_of_float64_def


section \<open>The ladders\<close>

lemma orders_append_map:
  "orders m bp feeAdj sell placements ps =
     placements @ map (\<lambda>p. \<lparr>Rate = orderPrice m bp feeAdj sell (GapFactor p),
                            TLots = (if orderPrice m bp feeAdj sell (GapFactor p) = 0
                                     then 0 else Lots p)\<rparr>) ps"
  by (induction ps arbitrary: placements) (simp_all add: Let_def)

text \<open>
  C4. When the calculator returns a basis price and fee gap statistics,
  \<open>ordersToPlace\<close> returns, for each side, one placement per configured rung in the
  order of the configuration: its rate is \<open>orderPrice\<close> of the rung's gap factor, with a
  fee adjustment of half the fee gap under the strategies absolute-plus, percent-plus
  and multiplier and of 0 otherwise, and its lots are the rung's lots, or 0 when the rate
  is 0. With one buy rung of 1 lot at a gap factor of 0.01, the percent strategy, a basis
  price of 500000 and a rate step of 1, the buy orders are one placement at rate 495000
  with 1 lot.
\<close>

theorem ordersToPlace_ladders:
  "(calc_basisPrice (m_calculator m) = Inr bp
      \<and> calc_feeGapStats (m_calculator m) bp = Inr feeGap \<longrightarrow>
    (let strat = GapStrategy (m_cfg m);
         feeAdj = (if strat = GapStrategyAbsolutePlus \<or> strat = GapStrategyPercentPlus
                      \<or> strat = GapStrategyMultiplier
                   then FeeGap feeGap div 2 else 0);
         rung = (\<lambda>sell p. \<lparr>Rate = orderPrice m bp feeAdj sell (GapFactor p),
                             TLots = (if orderPrice m bp feeAdj sell (GapFactor p) = 0
                                      then 0 else Lots p)\<rparr>)
     in ordersToPlace m =
          Inr (map (rung False) (BuyPlacements (m_cfg m)),
               map (rung True) (SellPlacements (m_cfg m)))))
   \<and> (GapStrategy (m_cfg m) = GapStrategyPercent
        \<and> BuyPlacements (m_cfg m) = [\<lparr>Lots = 1, GapFactor = 0.01\<rparr>]
        \<and> rateStep (m_market m) = 1
        \<and> calc_basisPrice (m_calculator m) = Inr 500000
        \<and> calc_feeGapStats (m_calculator m) 500000 = Inr feeGap \<longrightarrow>
       (\<exists>sellOrders. ordersToPlace m = Inr ([\<lparr>Rate = 495000, TLots = 1\<rparr>], sellOrders)))"
proof -
  have gen: "ordersToPlace m =
      Inr (map (\<lambda>p. \<lparr>Rate = orderPrice m bp
                            (if needBreakEvenHalfSpread (GapStrategy (m_cfg m))
                             then FeeGap feeGap div 2 else 0) False (GapFactor p),
                        TLots = (if orderPrice m bp
                            (if needBreakEvenHalfSpread (GapStrategy (m_cfg m))
                             then FeeGap feeGap div 2 else 0) False (GapFactor p) = 0
                                 then 0 else Lots p)\<rparr>) (BuyPlacements (m_cfg m)),
           map (\<lambda>p. \<lparr>Rate = orderPrice m bp
                            (if needBreakEvenHalfSpread (GapStrategy (m_cfg m))
                             then FeeGap feeGap div 2 else 0) True (GapFactor p),
                        TLots = (if orderPrice m bp
                            (if needBreakEvenHalfSpread (GapStrategy (m_cfg m))
                             then FeeGap feeGap div 2 else 0) True (GapFactor p) = 0
                                 then 0 else Lots p)\<rparr>) (SellPlacements (m_cfg m)))"
    if "calc_basisPrice (m_calculator m) = Inr bp"
      "calc_feeGapStats (m_calculator m) bp = Inr feeGap" for bp
    using that by (simp add: ordersToPlace_def Let_def orders_append_map)
  have ex: "\<exists>sellOrders. ordersToPlace m = Inr ([\<lparr>Rate = 495000, TLots = 1\<rparr>], sellOrders)"
    if h: "GapStrategy (m_cfg m) = GapStrategyPercent"
      "BuyPlacements (m_cfg m) = [\<lparr>Lots = 1, GapFactor = 0.01\<rparr>]"
      "rateStep (m_market m) = 1"
      "calc_basisPrice (m_calculator m) = Inr 500000"
      "calc_feeGapStats (m_calculator m) 500000 = Inr feeGap"
  proof -
    have off: "uint64_of_float64 (math_Round (float64_of_uint64 500000 / 100)) = 5000"
      by (simp add: math_Round_def float64_of_uint64_def uint64_of_float64_def)
    have st: "steppedRate 5000 1 = 5000"
      by (simp add: steppedRate_def)
    have "orderPrice m 500000 0 False 0.01 = 495000"
      using h(1,3) by (simp add: orderPrice_def Let_def GapStrategy_defs off st)
    moreover have "\<not> needBreakEvenHalfSpread (GapStrategy (m_cfg m))"
      using h(1) by (simp add: needBreakEvenHalfSpread_def GapStrategy_defs)
    ultimately show ?thesis
      using gen [OF h(4,5)] h(2) by simp
  qed
  from gen [of bp] ex show ?thesis
    unfolding Let_def needBreakEvenHalfSpread_def by blast
qed

theorem ordersToPlace_ladders_witness:
  "ordersToPlace exampleBot =
     Inr ([\<lparr>Rate = 495000, TLots = 1\<rparr>], [\<lparr>Rate = 510000, TLots = 2\<rparr>])"
proof -
  have h: "calc_basisPrice (m_calculator exampleBot) = Inr 500000"
    "calc_feeGapStats (m_calculator exampleBot) 500000 =
       Inr \<lparr>BasisPrice = 500000, RemoteGap = 0, FeeGap = 2000, RoundTripFees = 3400\<rparr>"
    "GapStrategy (m_cfg exampleBot) = GapStrategyPercent"
    "BuyPlacements (m_cfg exampleBot) = [\<lparr>Lots = 1, GapFactor = 0.01\<rparr>]"
    "SellPlacements (m_cfg exampleBot) = [\<lparr>Lots = 2, GapFactor = 0.02\<rparr>]"
    "rateStep (m_market exampleBot) = 1"
    by (simp_all add: exampleBot_def exampleConfig_def exampleMarket_def)
  have p: "orderPrice exampleBot 500000 0 True 0.02 = 510000"
    "orderPrice exampleBot 500000 0 False 0.01 = 495000"
    by (simp_all add: orderPrice_def steppedRate_def example_defs Let_def GapStrategy_defs)
  from ordersToPlace_ladders [of exampleBot 500000
      "\<lparr>BasisPrice = 500000, RemoteGap = 0, FeeGap = 2000, RoundTripFees = 3400\<rparr>"] h p
  show ?thesis
    by (simp add: Let_def GapStrategy_defs)
qed

section \<open>Rebalancing\<close>




end
